theory Spec2Isabelle
  imports Main
begin

section \<open>JavaScript values\<close>

text \<open>
  The values that travel through the handlers of \<^verbatim>\<open>index.js\<close>: fields of the
  parsed JSON body, path parameters, column values of result rows. They are the
  scalars of a Record (string, number, null), booleans, and \<^verbatim>\<open>undefined\<close> for a
  property that is absent. Numbers are integers here, with \<^verbatim>\<open>NaN\<close> apart (the value
  \<^verbatim>\<open>parseInt\<close> gives for a non-numeric string): the integers that a JavaScript number
  holds exactly and prints in plain decimal digits, which are those of magnitude below
  \<open>10 ^ 21\<close> that a double represents. Fractional numbers, larger and infinite ones,
  dates, nested objects and arrays are outside the model. Strings are ASCII.
\<close>

datatype jsval = JUndefined | JNull | JBool bool | JNum int | JNaN | JStr string

subsection \<open>ToString, as a template literal applies it to \<^verbatim>\<open>${x}\<close>\<close>

fun nat_digits :: "nat \<Rightarrow> string" where
  "nat_digits n =
     (if n < 10 then [''0123456789'' ! n]
      else nat_digits (n div 10) @ [''0123456789'' ! (n mod 10)])"

declare nat_digits.simps [simp del]

fun ToString :: "jsval \<Rightarrow> string" where
  "ToString JUndefined = ''undefined''"
| "ToString JNull = ''null''"
| "ToString (JBool b) = (if b then ''true'' else ''false'')"
| "ToString (JNum n) = (if n < 0 then ''-'' @ nat_digits (nat (- n)) else nat_digits (nat n))"
| "ToString JNaN = ''NaN''"
| "ToString (JStr s) = s"

subsection \<open>Truthiness: \<^verbatim>\<open>!x\<close> and \<^verbatim>\<open>x || y\<close>\<close>

fun truthy :: "jsval \<Rightarrow> bool" where
  "truthy JUndefined = False"
| "truthy JNull = False"
| "truthy (JBool b) = b"
| "truthy (JNum n) = (n \<noteq> 0)"
| "truthy JNaN = False"
| "truthy (JStr s) = (s \<noteq> [])"

definition falsy :: "jsval \<Rightarrow> bool" where
  "falsy v = (\<not> truthy v)"

text \<open>\<^verbatim>\<open>x || null\<close>\<close>

definition or_null :: "jsval \<Rightarrow> jsval" where
  "or_null v = (if truthy v then v else JNull)"

subsection \<open>Reading digits\<close>

definition is_ws :: "char \<Rightarrow> bool" where
  "is_ws c = (c \<in> set [CHR 0x09, CHR 0x0A, CHR 0x0B, CHR 0x0C, CHR 0x0D, CHR 0x20])"

definition digit_table :: "(char \<times> nat) list" where
  "digit_table =
     [(CHR ''0'', 0), (CHR ''1'', 1), (CHR ''2'', 2), (CHR ''3'', 3), (CHR ''4'', 4),
      (CHR ''5'', 5), (CHR ''6'', 6), (CHR ''7'', 7), (CHR ''8'', 8), (CHR ''9'', 9),
      (CHR ''a'', 10), (CHR ''b'', 11), (CHR ''c'', 12), (CHR ''d'', 13), (CHR ''e'', 14),
      (CHR ''f'', 15),
      (CHR ''A'', 10), (CHR ''B'', 11), (CHR ''C'', 12), (CHR ''D'', 13), (CHR ''E'', 14),
      (CHR ''F'', 15)]"

text \<open>The value of a character as a digit of radix \<open>R\<close>, if it is one.\<close>

definition digit_val :: "nat \<Rightarrow> char \<Rightarrow> nat option" where
  "digit_val R c =
     (case map_of digit_table c of
        None \<Rightarrow> None
      | Some d \<Rightarrow> if d < R then Some d else None)"

definition is_digit :: "nat \<Rightarrow> char \<Rightarrow> bool" where
  "is_digit R c = (case digit_val R c of None \<Rightarrow> False | Some d \<Rightarrow> True)"

definition digits_value :: "nat \<Rightarrow> string \<Rightarrow> nat" where
  "digits_value R ds =
     foldl (\<lambda>a c. a * R + (case digit_val R c of None \<Rightarrow> 0 | Some d \<Rightarrow> d)) 0 ds"

subsection \<open>Rounding to a double\<close>

text \<open>\<open>log2 n\<close> is the position of the highest bit of \<open>n\<close>, for \<open>n\<close> at least 1.\<close>

fun log2 :: "nat \<Rightarrow> nat" where
  "log2 n = (if n < 2 then 0 else Suc (log2 (n div 2)))"

declare log2.simps [simp del]

text \<open>\<open>a / q\<close> rounded to the nearest natural number, a tie going to the even one.\<close>

definition round_half_even :: "nat \<Rightarrow> nat \<Rightarrow> nat" where
  "round_half_even a q =
     (let d = a div q; r = a mod q
      in if 2 * r < q then d
         else if q < 2 * r then d + 1
         else if even d then d else d + 1)"

text \<open>
  The Number value of a natural number: itself below \<open>2 ^ 53\<close>; above, the nearest of
  the numbers with 53 significant bits, a tie going to the one whose last bit is 0.
\<close>

definition to_double :: "nat \<Rightarrow> nat" where
  "to_double n =
     (if n < 2 ^ 53 then n
      else let q = 2 ^ (log2 n - 52) in round_half_even n q * q)"

subsection \<open>\<^verbatim>\<open>parseInt(x)\<close>, called without a radix\<close>

definition parseInt :: "jsval \<Rightarrow> jsval" where
  "parseInt v =
     (let s0 = dropWhile is_ws (ToString v);
          neg = (case s0 of [] \<Rightarrow> False | c # cs \<Rightarrow> c = CHR ''-'');
          s1 = (case s0 of [] \<Rightarrow> []
                | c # cs \<Rightarrow> if c = CHR ''+'' \<or> c = CHR ''-'' then cs else s0);
          hex = (case s1 of
                   a # b # cs \<Rightarrow> a = CHR ''0'' \<and> (b = CHR ''x'' \<or> b = CHR ''X'')
                 | _ \<Rightarrow> False);
          R = (if hex then 16 else 10);
          s2 = (if hex then drop 2 s1 else s1);
          Z = takeWhile (is_digit R) s2
      in if Z = [] then JNaN
         else JNum ((if neg then - 1 else 1) * int (to_double (digits_value R Z))))"

subsection \<open>ToNumber of a string, for \<^verbatim>\<open>isNaN\<close> and \<^verbatim>\<open>!=\<close>\<close>

text \<open>
  The numeric value of a string before it is rounded to a double: \<open>Dec m e\<close> is
  \<open>m * 10 ^ e\<close>, exactly. The grammar is
  that of ECMAScript's StringNumericLiteral: surrounding white space, then nothing
  (the value 0), a signed decimal literal with optional fraction and exponent,
  \<^verbatim>\<open>Infinity\<close>, or an unsigned binary, octal or hexadecimal integer.
\<close>

datatype strnum = SNaN | SInf | Dec int int

definition trim :: "string \<Rightarrow> string" where
  "trim s = rev (dropWhile is_ws (rev (dropWhile is_ws s)))"

definition radix_literal :: "nat \<Rightarrow> string \<Rightarrow> strnum" where
  "radix_literal R ds =
     (if ds \<noteq> [] \<and> list_all (is_digit R) ds then Dec (int (digits_value R ds)) 0 else SNaN)"

text \<open>\<^verbatim>\<open>e\<close> or \<^verbatim>\<open>E\<close>, an optional sign, at least one digit, and nothing after.\<close>

definition exponent_part :: "string \<Rightarrow> int option" where
  "exponent_part s =
     (case s of
        [] \<Rightarrow> Some 0
      | c # cs \<Rightarrow>
          if c = CHR ''e'' \<or> c = CHR ''E'' then
            (let neg = (case cs of [] \<Rightarrow> False | d # ds \<Rightarrow> d = CHR ''-'');
                 ds = (case cs of [] \<Rightarrow> []
                       | d # ds \<Rightarrow> if d = CHR ''+'' \<or> d = CHR ''-'' then ds else cs)
             in if ds \<noteq> [] \<and> list_all (is_digit 10) ds
                then Some ((if neg then - 1 else 1) * int (digits_value 10 ds))
                else None)
          else None)"

definition unsigned_decimal :: "string \<Rightarrow> strnum" where
  "unsigned_decimal s =
     (if s = ''Infinity'' then SInf
      else
        let ip = takeWhile (is_digit 10) s;
            r1 = dropWhile (is_digit 10) s;
            dot = (case r1 of [] \<Rightarrow> False | c # cs \<Rightarrow> c = CHR ''.'');
            fp = (if dot then takeWhile (is_digit 10) (tl r1) else []);
            r2 = (if dot then dropWhile (is_digit 10) (tl r1) else r1)
        in if ip = [] \<and> fp = [] then SNaN
           else case exponent_part r2 of
                  None \<Rightarrow> SNaN
                | Some x \<Rightarrow> Dec (int (digits_value 10 (ip @ fp))) (x - int (length fp)))"

definition negate :: "strnum \<Rightarrow> strnum" where
  "negate x = (case x of Dec m e \<Rightarrow> Dec (- m) e | _ \<Rightarrow> x)"

definition StringToNumber :: "string \<Rightarrow> strnum" where
  "StringToNumber s =
     (let t = trim s in
      case t of
        [] \<Rightarrow> Dec 0 0
      | a # u \<Rightarrow>
          if a = CHR ''+'' then unsigned_decimal u
          else if a = CHR ''-'' then negate (unsigned_decimal u)
          else (case u of
                  [] \<Rightarrow> unsigned_decimal t
                | b # ds \<Rightarrow>
                    if a = CHR ''0'' \<and> (b = CHR ''x'' \<or> b = CHR ''X'') then radix_literal 16 ds
                    else if a = CHR ''0'' \<and> (b = CHR ''o'' \<or> b = CHR ''O'') then radix_literal 8 ds
                    else if a = CHR ''0'' \<and> (b = CHR ''b'' \<or> b = CHR ''B'') then radix_literal 2 ds
                    else unsigned_decimal t))"

fun isNaN :: "jsval \<Rightarrow> bool" where
  "isNaN JUndefined = True"
| "isNaN JNull = False"
| "isNaN (JBool b) = False"
| "isNaN (JNum n) = False"
| "isNaN JNaN = True"
| "isNaN (JStr s) = (StringToNumber s = SNaN)"

subsection \<open>Loose equality \<^verbatim>\<open>x == y\<close> and \<^verbatim>\<open>x != y\<close> on scalars\<close>

text \<open>
  Whether the decimal \<open>m * 10 ^ e\<close> has the natural number \<open>n\<close> as its Number value:
  whether it lies between the midpoints that separate \<open>n\<close> from the doubles next to it,
  a midpoint counting when the last of the 53 significant bits of \<open>n\<close> is 0. For
  \<open>n = 0\<close> the midpoint is half the least positive double, \<open>2 ^ - 1075\<close>. With
  \<open>k\<close> the position of the highest bit of \<open>n\<close>, the double above is \<open>2 ^ (k - 52)\<close>
  away, and so is the double below, unless \<open>n\<close> is \<open>2 ^ k\<close>: then that is half as far.
  All quantities are scaled by \<open>2 ^ 54\<close> and by the power of ten that clears the
  exponent, so that they are natural numbers.
\<close>

definition rounds_to :: "nat \<Rightarrow> int \<Rightarrow> nat \<Rightarrow> bool" where
  "rounds_to m e n =
     (let p = (if 0 \<le> e then 10 ^ nat e else 1);
          q = (if 0 \<le> e then 1 else 10 ^ nat (- e))
      in if n = 0 then m * p * 2 ^ 1075 \<le> q
         else
           let k = log2 n;
               A = m * p * 2 ^ 54;
               N = n * 2 ^ 54;
               above = 2 ^ (k + 1);
               below = (if n = 2 ^ k then 2 ^ k else 2 ^ (k + 1));
               last_bit_0 = even ((n * 2 ^ 52) div 2 ^ k);
               lo = (N - below) * q;
               hi = (N + above) * q
           in (lo < A \<or> (lo = A \<and> last_bit_0)) \<and> (A < hi \<or> (A = hi \<and> last_bit_0)))"

text \<open>
  \<^verbatim>\<open>n == s\<close> for a number and a string: the string is converted to a number, that is,
  its decimal value is rounded to a double, and the two numbers are compared.
\<close>

definition num_eq_str :: "int \<Rightarrow> string \<Rightarrow> bool" where
  "num_eq_str n s =
     (case StringToNumber s of
        Dec m e \<Rightarrow>
          if n = 0 then rounds_to (nat \<bar>m\<bar>) e 0
          else if 0 < n then 0 < m \<and> rounds_to (nat m) e (nat n)
          else m < 0 \<and> rounds_to (nat (- m)) e (nat (- n))
      | _ \<Rightarrow> False)"

definition bool_num :: "bool \<Rightarrow> int" where
  "bool_num b = (if b then 1 else 0)"

fun loose_eq :: "jsval \<Rightarrow> jsval \<Rightarrow> bool" where
  "loose_eq JUndefined y = (y = JUndefined \<or> y = JNull)"
| "loose_eq JNull y = (y = JUndefined \<or> y = JNull)"
| "loose_eq JNaN y = False"
| "loose_eq (JNum n) (JNum k) = (n = k)"
| "loose_eq (JNum n) (JStr s) = num_eq_str n s"
| "loose_eq (JNum n) (JBool b) = (n = bool_num b)"
| "loose_eq (JNum n) y = False"
| "loose_eq (JStr s) (JStr t) = (s = t)"
| "loose_eq (JStr s) (JNum k) = num_eq_str k s"
| "loose_eq (JStr s) (JBool b) = num_eq_str (bool_num b) s"
| "loose_eq (JStr s) y = False"
| "loose_eq (JBool a) (JBool b) = (a = b)"
| "loose_eq (JBool a) (JNum k) = (bool_num a = k)"
| "loose_eq (JBool a) (JStr s) = num_eq_str (bool_num a) s"
| "loose_eq (JBool a) y = False"

definition loose_neq :: "jsval \<Rightarrow> jsval \<Rightarrow> bool" where
  "loose_neq x y = (\<not> loose_eq x y)"

section \<open>The Query Executor, seen from a handler\<close>

text \<open>
  \<^verbatim>\<open>pool\<close> (\<^verbatim>\<open>data/config.js\<close>) is a pool of the \<^verbatim>\<open>mysql\<close> driver; the driver and the
  database behind it are external. A handler hands \<^verbatim>\<open>pool.query\<close> a statement text,
  sometimes a list of values to bind to its \<^verbatim>\<open>?\<close> placeholders, and a callback; the
  callback is later run with \<^verbatim>\<open>(err, result)\<close>. What the executor answers is an input
  of the model: a \<open>reply\<close>.
\<close>

type_synonym row = "(string \<times> jsval) list"

text \<open>
  \<^verbatim>\<open>result\<close>: an array of rows for a SELECT, a packet carrying \<^verbatim>\<open>affectedRows\<close> and
  \<^verbatim>\<open>insertId\<close> for a write, and \<^verbatim>\<open>undefined\<close> when the driver passes only an error.
\<close>

datatype dbresult = RUndefined | RRows "row list" | ROk nat nat

datatype dberr = DbErr (message: string)

text \<open>
  \<open>Calls err result\<close>: the callback runs with these arguments. \<open>Throws m\<close>: the
  call of \<^verbatim>\<open>pool.query\<close> itself throws an error with message \<open>m\<close>, the case the
  \<^verbatim>\<open>try ... catch\<close> blocks around it are written for.
\<close>

datatype reply = Throws string | Calls "dberr option" dbresult

datatype exn =
    ReferenceError string
  | TypeError string
  | SyntaxError string
  | ERR_HTTP_HEADERS_SENT
  | Thrown string

text \<open>Property reads on \<^verbatim>\<open>result\<close>; reading a property of \<^verbatim>\<open>undefined\<close> is a TypeError.\<close>

text \<open>\<^verbatim>\<open>result.length === 0\<close>\<close>

definition length_is_0 :: "dbresult \<Rightarrow> exn + bool" where
  "length_is_0 result =
     (case result of
        RUndefined \<Rightarrow> Inl (TypeError ''length'')
      | RRows rs \<Rightarrow> Inr (rs = [])
      | ROk a i \<Rightarrow> Inr False)"

text \<open>\<^verbatim>\<open>result.affectedRows === 0\<close>\<close>

definition affectedRows_is_0 :: "dbresult \<Rightarrow> exn + bool" where
  "affectedRows_is_0 result =
     (case result of
        RUndefined \<Rightarrow> Inl (TypeError ''affectedRows'')
      | RRows rs \<Rightarrow> Inr False
      | ROk a i \<Rightarrow> Inr (a = 0))"

text \<open>\<^verbatim>\<open>result.insertId\<close>\<close>

definition insertId_of :: "dbresult \<Rightarrow> exn + jsval" where
  "insertId_of result =
     (case result of
        RUndefined \<Rightarrow> Inl (TypeError ''insertId'')
      | RRows rs \<Rightarrow> Inr JUndefined
      | ROk a i \<Rightarrow> Inr (JNum (int i)))"

text \<open>\<^verbatim>\<open>err || test\<close>: the test is not evaluated when there is an error.\<close>

definition err_or :: "dberr option \<Rightarrow> exn + bool \<Rightarrow> exn + bool" where
  "err_or err test = (case err of Some e \<Rightarrow> Inr True | None \<Rightarrow> test)"

text \<open>\<^verbatim>\<open>row.k\<close>\<close>

definition row_get :: "row \<Rightarrow> string \<Rightarrow> jsval" where
  "row_get r k = (case map_of r k of None \<Rightarrow> JUndefined | Some v \<Rightarrow> v)"

section \<open>Requests, responses, and what a handler does\<close>

record request =
  params :: "string \<rightharpoonup> string"
  body :: "string \<rightharpoonup> jsval"

text \<open>\<^verbatim>\<open>req.params.k\<close> and \<^verbatim>\<open>req.body.k\<close>\<close>

definition param :: "request \<Rightarrow> string \<Rightarrow> jsval" where
  "param req k = (case params req k of None \<Rightarrow> JUndefined | Some s \<Rightarrow> JStr s)"

definition field :: "request \<Rightarrow> string \<Rightarrow> jsval" where
  "field req k = (case body req k of None \<Rightarrow> JUndefined | Some v \<Rightarrow> v)"

text \<open>
  The payload of a response: an object literal passed to \<^verbatim>\<open>.json\<close>, the executor's
  \<^verbatim>\<open>result\<close> passed to \<^verbatim>\<open>.json\<close> or to \<^verbatim>\<open>.send\<close>, or a text passed to \<^verbatim>\<open>.send\<close>;
  and the page with which Express itself answers an error that a handler lets escape.
\<close>

datatype jv = V jsval | R dbresult

abbreviation Str :: "string \<Rightarrow> jv" where
  "Str s \<equiv> V (JStr s)"

datatype payload =
    Json "(string \<times> jv) list"
  | JsonOf dbresult
  | SendOf dbresult
  | Text string
  | ErrorPage string

type_synonym response = "nat \<times> payload"

text \<open>
  What one request causes: the statements handed to \<^verbatim>\<open>pool.query\<close> with their bound
  values (none when the call has no values argument), the response written to the client,
  and the exception that is raised and caught by nothing in \<^verbatim>\<open>index.js\<close>, if any.
\<close>

record outcome =
  queries :: "(string \<times> jsval list) list"
  sent :: "response option"
  thrown :: "exn option"

definition idle :: outcome where
  "idle = \<lparr>queries = [], sent = None, thrown = None\<rparr>"

text \<open>
  \<^verbatim>\<open>res.status(c).json(b)\<close> and \<^verbatim>\<open>res.status(c).send(b)\<close>. The first one writes the
  response. One more, after the response is written, changes nothing for the client, and
  throws \<^verbatim>\<open>ERR_HTTP_HEADERS_SENT\<close> when it sets the headers of its body; only
  \<^verbatim>\<open>.send(undefined)\<close> has no body to set headers for, and returns quietly.
\<close>

definition respond :: "nat \<Rightarrow> payload \<Rightarrow> outcome \<Rightarrow> outcome" where
  "respond c b oc =
     (case sent oc of
        None \<Rightarrow> oc\<lparr>sent := Some (c, b)\<rparr>
      | Some r \<Rightarrow>
          if b = SendOf RUndefined then oc else oc\<lparr>thrown := Some ERR_HTTP_HEADERS_SENT\<rparr>)"

definition throw :: "exn \<Rightarrow> outcome \<Rightarrow> outcome" where
  "throw x oc = oc\<lparr>thrown := Some x\<rparr>"

type_synonym callback = "dberr option \<Rightarrow> dbresult \<Rightarrow> outcome \<Rightarrow> outcome"

text \<open>
  \<^verbatim>\<open>try { pool.query(sql, vals, cb) } catch (err) { handler }\<close>: the statement is handed
  over; then either the call throws and the \<^verbatim>\<open>catch\<close> block runs with the message, or
  the callback runs.
\<close>

definition try_query ::
  "string \<Rightarrow> jsval list \<Rightarrow> reply \<Rightarrow> callback \<Rightarrow> (string \<Rightarrow> outcome \<Rightarrow> outcome) \<Rightarrow> outcome \<Rightarrow> outcome"
where
  "try_query sql vals rep cb catch oc =
     (let oc' = oc\<lparr>queries := queries oc @ [(sql, vals)]\<rparr>
      in case rep of
           Throws m \<Rightarrow> catch m oc'
         | Calls err result \<Rightarrow> cb err result oc')"

text \<open>
  \<^verbatim>\<open>pool.query(sql, vals, cb)\<close> outside any \<^verbatim>\<open>try\<close>, in an \<^verbatim>\<open>async\<close> handler or
  inside a callback: if the call throws, nothing catches the exception.
\<close>

definition pool_query ::
  "string \<Rightarrow> jsval list \<Rightarrow> reply \<Rightarrow> callback \<Rightarrow> outcome \<Rightarrow> outcome"
where
  "pool_query sql vals rep cb oc = try_query sql vals rep cb (\<lambda>m. throw (Thrown m)) oc"

text \<open>
  \<^verbatim>\<open>pool.query(sql, vals, cb)\<close> outside any \<^verbatim>\<open>try\<close>, in the body of a handler that is
  not \<^verbatim>\<open>async\<close>: if the call throws, the exception leaves the handler and Express
  catches it and answers 500 with its own error page.
\<close>

definition routed_query ::
  "string \<Rightarrow> jsval list \<Rightarrow> reply \<Rightarrow> callback \<Rightarrow> outcome \<Rightarrow> outcome"
where
  "routed_query sql vals rep cb oc =
     try_query sql vals rep cb (\<lambda>m. respond 500 (ErrorPage m)) oc"

text \<open>\<^verbatim>\<open>'${x}'\<close> inside a template literal\<close>

definition quoted :: "string \<Rightarrow> string" where
  "quoted s = [CHR 0x27] @ s @ [CHR 0x27]"

section \<open>Church routes\<close>

text \<open>\<^verbatim>\<open>app.get('/api/Church', ...)\<close>\<close>

definition get_Church :: "request \<Rightarrow> reply \<Rightarrow> outcome" where
  "get_Church req rep =
     routed_query ''SELECT * FROM Church'' [] rep
       (\<lambda>err result oc.
          case err of
            Some e \<Rightarrow> respond 500 (Json [(''error'', Str (message e))]) oc
          | None \<Rightarrow> respond 200 (JsonOf result) oc)
       idle"

text \<open>\<^verbatim>\<open>app.get('/api/Church/:churchId', ...)\<close>\<close>

definition get_Church_id_stmt :: "request \<Rightarrow> string \<times> jsval list" where
  "get_Church_id_stmt req =
     (let churchId = parseInt (param req ''churchId'')
      in (''SELECT * FROM Church WHERE churchId = ?'', [churchId]))"

definition get_Church_id :: "request \<Rightarrow> reply \<Rightarrow> outcome" where
  "get_Church_id req rep =
     routed_query (fst (get_Church_id_stmt req)) (snd (get_Church_id_stmt req)) rep
       (\<lambda>err result oc.
          case err_or err (length_is_0 result) of
            Inl x \<Rightarrow> throw x oc
          | Inr b \<Rightarrow>
              if b then respond 404 (Json [(''message'', Str ''Church not found'')]) oc
              else respond 200 (JsonOf result) oc)
       idle"

text \<open>\<^verbatim>\<open>app.post('/api/Church', ...)\<close>\<close>

definition post_Church_stmt :: "request \<Rightarrow> string \<times> jsval list" where
  "post_Church_stmt req =
     (let churchName = field req ''churchName''; location = field req ''location'';
          branch = field req ''branch''; province = field req ''province'';
          city = field req ''city''; region = field req ''region'';
          pastorId = field req ''pastorId'';
          sql = ''INSERT INTO Church (churchName, location, branch, province, city, region, '' @
                ''pastorId) VALUES (?, ?, ?, ?, ?, ?, ?)''
      in (sql, [churchName, location, branch, province, city, region, pastorId]))"

definition post_Church :: "request \<Rightarrow> reply \<Rightarrow> outcome" where
  "post_Church req rep =
     routed_query (fst (post_Church_stmt req)) (snd (post_Church_stmt req)) rep
       (\<lambda>err result oc.
          case err of
            Some e \<Rightarrow> respond 400 (Json [(''error'', Str (message e))]) oc
          | None \<Rightarrow>
              respond 201
                (Json [(''message'', Str ''Church created successfully''), (''result'', R result)]) oc)
       idle"

text \<open>\<^verbatim>\<open>app.put('/api/Church', ...)\<close>\<close>

definition put_Church :: "request \<Rightarrow> reply \<Rightarrow> outcome" where
  "put_Church req rep =
     (let churchId = field req ''churchId''; churchName = field req ''churchName'';
          location = field req ''location''; branch = field req ''branch'';
          province = field req ''province''; city = field req ''city'';
          region = field req ''region''; pastorId = field req ''pastorId'';
          sql = ''\<newline>'' @
                ''    UPDATE Church SET \<newline>'' @
                ''      churchName = ?, location = ?, branch = ?, province = ?, city = ?, '' @
                ''region = ?, pastorId = ?\<newline>'' @
                ''    WHERE churchId = ?\<newline>'' @
                ''  ''
      in routed_query sql
           [churchName, location, branch, province, city, region, pastorId, churchId] rep
           (\<lambda>err result oc.
              case err of
                Some e \<Rightarrow> respond 500 (Json [(''error'', Str (message e))]) oc
              | None \<Rightarrow>
                  respond 200
                    (Json [(''message'', Str ''Church updated successfully''), (''result'', R result)])
                    oc)
           idle)"

text \<open>\<^verbatim>\<open>app.delete('/api/Church/:id', ...)\<close>\<close>

definition delete_Church :: "request \<Rightarrow> reply \<Rightarrow> outcome" where
  "delete_Church req rep =
     (let churchId = parseInt (param req ''id'')
      in routed_query ''DELETE FROM Church WHERE churchId = ?'' [churchId] rep
           (\<lambda>err result oc.
              case err_or err (affectedRows_is_0 result) of
                Inl x \<Rightarrow> throw x oc
              | Inr b \<Rightarrow>
                  if b then respond 404 (Json [(''message'', Str ''Church not found'')]) oc
                  else respond 200 (Json [(''message'', Str ''Church deleted successfully'')]) oc)
           idle)"

section \<open>Person routes\<close>

text \<open>\<^verbatim>\<open>app.get('/api/Person', ...)\<close>\<close>

definition get_Person :: "request \<Rightarrow> reply \<Rightarrow> outcome" where
  "get_Person req rep =
     try_query ''select * from Person'' [] rep
       (\<lambda>err result oc.
          case err of
            Some e \<Rightarrow> oc
          | None \<Rightarrow> respond 200 (SendOf result) oc)
       (\<lambda>m. respond 500 (Json [(''message'', Str m)]))
       idle"

text \<open>\<^verbatim>\<open>app.get('/api/Person/:id', ...)\<close>\<close>

definition get_Person_id :: "request \<Rightarrow> reply \<Rightarrow> outcome" where
  "get_Person_id req rep =
     (let personId = parseInt (param req ''id'')
      in try_query (''select * from Person where personId='' @ ToString personId) [] rep
           (\<lambda>err result oc.
              let oc1 = (case err of
                           Some e \<Rightarrow> respond 404 (Json [(''message'', Str ''Person not found'')]) oc
                         | None \<Rightarrow> oc)
              in respond 200 (SendOf result) oc1)
           (\<lambda>m. respond 500 (Json [(''message'', Str m)]))
           idle)"

text \<open>\<^verbatim>\<open>app.post('/api/Person', ...)\<close>\<close>

definition post_Person_sql :: "request \<Rightarrow> string" where
  "post_Person_sql request =
     (let personId = field request ''personId''; address = field request ''address'';
          comments = field request ''comments'';
          contactNumber = field request ''contactNumber''; gender = field request ''gender'';
          maritalStatus = field request ''maritalStatus''; name = field request ''name'';
          surname = field request ''surname''; churchId = field request ''churchId'';
          cellLeader = field request ''cellLeader'';
          cellLocation = field request ''cellLocation''; church = field request ''church'';
          ministry = field request ''ministry''; region = field request ''region'';
          regContribution = field request ''regContribution'';
          seedContribution = field request ''seedContribution'';
          amount = field request ''amount'';
          sql = ''INSERT INTO Person\<newline>'' @
                ''    (personId, address, comments, contactNumber, gender, maritalStatus, '' @
                ''name, surname, churchId, cellLeader, cellLocation, ministry, church, '' @
                ''region, regContribution, seedContribution, amount) VALUES \<newline>'' @
                ''    ('' @ quoted (ToString personId) @ '', '' @ quoted (ToString address) @
                '', '' @ quoted (ToString comments) @ '', '' @ quoted (ToString contactNumber) @
                '', '' @ quoted (ToString gender) @ '', '' @ quoted (ToString maritalStatus) @
                '' , '' @ quoted (ToString name) @ '', '' @ quoted (ToString surname) @
                '' , '' @ quoted (ToString churchId) @ '', '' @ quoted (ToString cellLeader) @
                '', '' @ quoted (ToString cellLocation) @ '' , '' @ quoted (ToString ministry) @
                '', '' @ quoted (ToString church) @ '', '' @ quoted (ToString region) @ '', '' @
                quoted (ToString regContribution) @ '', '' @
                quoted (ToString seedContribution) @ '', '' @ quoted (ToString amount) @ '')''
      in sql)"

definition post_Person :: "request \<Rightarrow> reply \<Rightarrow> outcome" where
  "post_Person request rep =
     try_query (post_Person_sql request) [] rep
       (\<lambda>err result oc.
          case err of
            Some e \<Rightarrow> oc
          | None \<Rightarrow> respond 200 (SendOf result) oc)
       (\<lambda>m. respond 400 (Json [(''message'', Str m)]))
       idle"

text \<open>\<^verbatim>\<open>app.put('/api/Person/{id}', ...)\<close>\<close>

definition put_Person_sql :: "request \<Rightarrow> string" where
  "put_Person_sql request =
     (let personId = field request ''personId''; address = field request ''address'';
          comments = field request ''comments'';
          contactNumber = field request ''contactNumber''; gender = field request ''gender'';
          maritalStatus = field request ''maritalStatus''; name = field request ''name'';
          surname = field request ''surname''; churchId = field request ''churchId'';
          cellLeader = field request ''cellLeader'';
          cellLocation = field request ''cellLocation''; ministry = field request ''ministry'';
          church = field request ''church''; region = field request ''region'';
          regContribution = field request ''regContribution'';
          seedContribution = field request ''seedContribution'';
          amount = field request ''amount'';
          sql = ''UPDATE Person\<newline>'' @ ''        SET  address='' @
                quoted (ToString address) @ '', comments='' @ quoted (ToString comments) @
                '', contactNumber='' @ quoted (ToString contactNumber) @ '', gender='' @
                quoted (ToString gender) @ '', maritalStatus='' @
                quoted (ToString maritalStatus) @ '', name='' @ quoted (ToString name) @
                '', surname='' @ quoted (ToString surname) @ '', churchId='' @
                quoted (ToString churchId) @ '', cellLeader='' @ quoted (ToString cellLeader) @
                '', cellLocation='' @ quoted (ToString cellLocation) @ '', ministry='' @
                quoted (ToString ministry) @ '', church='' @ quoted (ToString church) @
                '', region='' @ quoted (ToString region) @ '', regContribution='' @
                quoted (ToString regContribution) @ '', seedContribution='' @
                quoted (ToString seedContribution) @ '', amount='' @ quoted (ToString amount) @
                ''\<newline>'' @ ''        WHERE personId='' @ quoted (ToString personId) @
                '' ''
      in sql)"

definition put_Person :: "request \<Rightarrow> reply \<Rightarrow> outcome" where
  "put_Person request rep =
     try_query (put_Person_sql request) [] rep
       (\<lambda>err result oc.
          case err of
            Some e \<Rightarrow> oc
          | None \<Rightarrow> throw (ReferenceError ''response'') oc)
       (\<lambda>m. respond 500 (Json [(''message'', Str m)]))
       idle"

text \<open>\<^verbatim>\<open>app.delete('/api/Person/{id}', ...)\<close>\<close>

definition delete_Person :: "request \<Rightarrow> reply \<Rightarrow> outcome" where
  "delete_Person req rep =
     (let personId = param req ''id''
      in try_query (''delete from Person where personId='' @ ToString personId) [] rep
           (\<lambda>err result oc.
              let oc1 = (case err of
                           Some e \<Rightarrow> respond 404 (Json [(''message'', Str ''Person not found'')]) oc
                         | None \<Rightarrow> oc)
              in respond 200 (SendOf result) oc1)
           (\<lambda>m. respond 500 (Json [(''message'', Str m)]))
           idle)"

section \<open>Stats routes\<close>

text \<open>\<^verbatim>\<open>app.get('/api/Stats', ...)\<close>\<close>

definition get_Stats :: "request \<Rightarrow> reply \<Rightarrow> outcome" where
  "get_Stats req rep =
     try_query ''select * from Stats'' [] rep
       (\<lambda>err result oc.
          case err of
            Some e \<Rightarrow> oc
          | None \<Rightarrow> respond 200 (SendOf result) oc)
       (\<lambda>m. respond 500 (Json [(''message'', Str m)]))
       idle"

text \<open>\<^verbatim>\<open>app.get('/api/Stats/:id', ...)\<close>\<close>

definition get_Stats_id :: "request \<Rightarrow> reply \<Rightarrow> outcome" where
  "get_Stats_id req rep =
     (let statsId = parseInt (param req ''id'')
      in try_query (''select * from Stats where statsId='' @ ToString statsId) [] rep
           (\<lambda>err result oc.
              let oc1 = (case err of
                           Some e \<Rightarrow> respond 404 (Json [(''message'', Str ''Stats not found'')]) oc
                         | None \<Rightarrow> oc)
              in respond 200 (SendOf result) oc1)
           (\<lambda>m. respond 500 (Json [(''message'', Str m)]))
           idle)"

text \<open>\<^verbatim>\<open>app.post('/api/Stats', ...)\<close>\<close>

definition post_Stats_sql :: "request \<Rightarrow> string" where
  "post_Stats_sql request =
     (let adult = field request ''adult''; car = field request ''car'';
          fk = field request ''fk''; saved = field request ''saved'';
          offering = field request ''offering''; visitors = field request ''visitors'';
          date = field request ''date''; churchId = field request ''churchId'';
          aow = field request ''aow''; ck = field request ''ck'';
          sql = ''INSERT INTO Stats\<newline>'' @
                ''    (adult, car, fk, saved, offering, visitors, date, churchId, aow, '' @
                ''ck) VALUES \<newline>'' @ ''    ('' @ quoted (ToString adult) @ '', '' @
                quoted (ToString car) @ '', '' @ quoted (ToString fk) @ '', '' @
                quoted (ToString saved) @ '' , '' @ quoted (ToString offering) @ '', '' @
                quoted (ToString visitors) @ '' ,'' @ quoted (ToString date) @ '' , '' @
                quoted (ToString churchId) @ '', '' @ quoted (ToString aow) @ '', '' @
                quoted (ToString ck) @ '')''
      in sql)"

definition post_Stats :: "request \<Rightarrow> reply \<Rightarrow> outcome" where
  "post_Stats request rep =
     try_query (post_Stats_sql request) [] rep
       (\<lambda>err result oc.
          case err of
            Some e \<Rightarrow> oc
          | None \<Rightarrow> respond 200 (SendOf result) oc)
       (\<lambda>m. respond 400 (Json [(''message'', Str m)]))
       idle"

text \<open>\<^verbatim>\<open>app.put('/api/Stats', ...)\<close>\<close>

definition put_Stats_sql :: "request \<Rightarrow> string" where
  "put_Stats_sql request =
     (let statsId = field request ''statsId''; adult = field request ''adult'';
          car = field request ''car''; fk = field request ''fk'';
          saved = field request ''saved''; offering = field request ''offering'';
          visitors = field request ''visitors''; date = field request ''date'';
          churchId = field request ''churchId''; aow = field request ''aow'';
          ck = field request ''ck'';
          sql = ''UPDATE Stats\<newline>'' @ ''    SET  adult='' @ quoted (ToString adult) @
                '', car='' @ quoted (ToString car) @ '', fk='' @ quoted (ToString fk) @
                '', saved='' @ quoted (ToString saved) @ '', offering='' @
                quoted (ToString offering) @ '', visitors='' @ quoted (ToString visitors) @
                '', date='' @ quoted (ToString date) @ '', churchId='' @
                quoted (ToString churchId) @ '', aow='' @ quoted (ToString aow) @ '', ck='' @
                quoted (ToString ck) @ ''\<newline>'' @ ''    WHERE statsId='' @
                quoted (ToString statsId) @ '' ''
      in sql)"

definition put_Stats :: "request \<Rightarrow> reply \<Rightarrow> outcome" where
  "put_Stats request rep =
     try_query (put_Stats_sql request) [] rep
       (\<lambda>err result oc.
          case err of
            Some e \<Rightarrow> oc
          | None \<Rightarrow> respond 200 (SendOf result) oc)
       (\<lambda>m. respond 400 (Json [(''message'', Str m)]))
       idle"

text \<open>\<^verbatim>\<open>app.delete('/api/Stats/:{statsId}', ...)\<close>\<close>

definition delete_Stats :: "request \<Rightarrow> reply \<Rightarrow> outcome" where
  "delete_Stats req rep =
     (let statsId = param req ''statsId''
      in try_query (''delete * from Stats where statsId='' @ ToString statsId) [] rep
           (\<lambda>err result oc.
              let oc1 = (case err of
                           Some e \<Rightarrow> respond 404 (Json [(''message'', Str ''Stats not found'')]) oc
                         | None \<Rightarrow> oc)
              in respond 200 (SendOf result) oc1)
           (\<lambda>m. respond 500 (Json [(''message'', Str m)]))
           idle)"

section \<open>User routes\<close>

text \<open>\<^verbatim>\<open>app.get('/api/User', ...)\<close>\<close>

definition get_User :: "request \<Rightarrow> reply \<Rightarrow> outcome" where
  "get_User req rep =
     try_query ''select * from User'' [] rep
       (\<lambda>err result oc.
          case err of
            Some e \<Rightarrow> oc
          | None \<Rightarrow> respond 200 (SendOf result) oc)
       (\<lambda>m. respond 500 (Json [(''message'', Str m)]))
       idle"

text \<open>\<^verbatim>\<open>app.get('/api/User/:id', ...)\<close>\<close>

definition get_User_id :: "request \<Rightarrow> reply \<Rightarrow> outcome" where
  "get_User_id req rep =
     (let userId = parseInt (param req ''id'')
      in try_query (''select * from User where userId='' @ ToString userId) [] rep
           (\<lambda>err result oc.
              let oc1 = (case err of
                           Some e \<Rightarrow> respond 404 (Json [(''message'', Str ''User not found'')]) oc
                         | None \<Rightarrow> oc)
              in respond 200 (SendOf result) oc1)
           (\<lambda>m. respond 500 (Json [(''message'', Str m)]))
           idle)"

text \<open>\<^verbatim>\<open>app.post('/api/User', ...)\<close>\<close>

definition post_User_sql :: "request \<Rightarrow> string" where
  "post_User_sql request =
     (let role = field request ''role''; username = field request ''username'';
          password = field request ''password''; personId = field request ''personId'';
          sql = ''INSERT INTO User\<newline>'' @
                ''    (role, username, password, personId) VALUES \<newline>'' @ ''    ('' @
                quoted (ToString role) @ '', '' @ quoted (ToString username) @ '', '' @
                quoted (ToString password) @ '', '' @ quoted (ToString personId) @ '')''
      in sql)"

definition post_User :: "request \<Rightarrow> reply \<Rightarrow> outcome" where
  "post_User request rep =
     try_query (post_User_sql request) [] rep
       (\<lambda>err result oc.
          case err of
            Some e \<Rightarrow> oc
          | None \<Rightarrow> respond 200 (SendOf result) oc)
       (\<lambda>m. respond 400 (Json [(''message'', Str m)]))
       idle"

text \<open>\<^verbatim>\<open>app.post('/Login/', ...)\<close>\<close>

text \<open>
  \<^verbatim>\<open>JSON.parse(JSON.stringify(result))\<close>: a copy of the rows in which \<^verbatim>\<open>NaN\<close> has become
  \<^verbatim>\<open>null\<close> and a property whose value is \<^verbatim>\<open>undefined\<close> is gone. \<^verbatim>\<open>JSON.stringify\<close> of
  \<^verbatim>\<open>undefined\<close> is \<^verbatim>\<open>undefined\<close>, which \<^verbatim>\<open>JSON.parse\<close> rejects with a SyntaxError.
\<close>

definition json_copy_row :: "row \<Rightarrow> row" where
  "json_copy_row r =
     map (\<lambda>(k, v). (k, if v = JNaN then JNull else v)) (filter (\<lambda>(k, v). v \<noteq> JUndefined) r)"

definition json_copy :: "dbresult \<Rightarrow> exn + dbresult" where
  "json_copy result =
     (case result of
        RUndefined \<Rightarrow> Inl (SyntaxError ''undefined'')
      | RRows rs \<Rightarrow> Inr (RRows (map json_copy_row rs))
      | ROk a i \<Rightarrow> Inr (ROk a i))"

text \<open>\<^verbatim>\<open>res[0].password\<close>, where \<^verbatim>\<open>res[0]\<close> is \<^verbatim>\<open>undefined\<close> unless there is a first row.\<close>

definition first_password :: "dbresult \<Rightarrow> exn + jsval" where
  "first_password res =
     (case res of
        RRows (r # rs) \<Rightarrow> Inr (row_get r ''password'')
      | _ \<Rightarrow> Inl (TypeError ''password''))"

text \<open>
  In the test \<^verbatim>\<open>res == [] || res == undefined || err\<close> the first two comparisons are
  always false: \<^verbatim>\<open>res\<close> is an object (the copy of the rows or of the packet), which is
  loosely equal neither to a fresh array nor to \<^verbatim>\<open>undefined\<close>. The value \<^verbatim>\<open>username\<close>
  is handed to \<^verbatim>\<open>pool.query\<close> as it is, not inside an array.
\<close>

definition post_Login :: "request \<Rightarrow> reply \<Rightarrow> outcome" where
  "post_Login request rep =
     (let username = field request ''username''; password = field request ''password''
      in routed_query ''select password from User where username=?'' [username] rep
           (\<lambda>err result oc.
              case json_copy result of
                Inl x \<Rightarrow> throw x oc
              | Inr res \<Rightarrow>
                  (case err of
                     Some e \<Rightarrow> respond 500 (Text ''Unaurthorized, Invalid Username'') oc
                   | None \<Rightarrow>
                       (case first_password res of
                          Inl x \<Rightarrow> throw x oc
                        | Inr resultPassword \<Rightarrow>
                            let oc1 = (if loose_neq resultPassword password
                                       then respond 401 (Text ''Unaurthorized, invalid password'') oc
                                       else oc)
                            in respond 200 (Text ''Auth Successfully, Access Granted!!'') oc1)))
           idle)"

text \<open>\<^verbatim>\<open>app.put('/api/User/{id}', ...)\<close>\<close>

definition put_User_sql :: "request \<Rightarrow> string" where
  "put_User_sql request =
     (let userId = field request ''userId''; role = field request ''role'';
          username = field request ''username''; password = field request ''password'';
          personId = field request ''personId'';
          sql = ''UPDATE User\<newline>'' @ ''        SET  role='' @ quoted (ToString role) @
                '', username='' @ quoted (ToString username) @ '', password='' @
                quoted (ToString password) @ '', personId='' @ quoted (ToString personId) @
                ''\<newline>'' @ ''        WHERE userId='' @ quoted (ToString userId) @ '' ''
      in sql)"

definition put_User :: "request \<Rightarrow> reply \<Rightarrow> outcome" where
  "put_User request rep =
     try_query (put_User_sql request) [] rep
       (\<lambda>err result oc.
          case err of
            Some e \<Rightarrow> oc
          | None \<Rightarrow> throw (ReferenceError ''response'') oc)
       (\<lambda>m. respond 500 (Json [(''message'', Str m)]))
       idle"

text \<open>\<^verbatim>\<open>app.delete('/api/User/{id}', ...)\<close>\<close>

definition delete_User :: "request \<Rightarrow> reply \<Rightarrow> outcome" where
  "delete_User req rep =
     (let userId = param req ''id''
      in try_query (''delete from User where userId='' @ ToString userId) [] rep
           (\<lambda>err result oc.
              let oc1 = (case err of
                           Some e \<Rightarrow> respond 404 (Json [(''message'', Str ''User not found'')]) oc
                         | None \<Rightarrow> oc)
              in respond 200 (SendOf result) oc1)
           (\<lambda>m. respond 500 (Json [(''message'', Str m)]))
           idle)"

section \<open>Calendar routes\<close>

text \<open>\<^verbatim>\<open>app.get('/api/Calendar', ...)\<close>\<close>

definition get_Calendar :: "request \<Rightarrow> reply \<Rightarrow> outcome" where
  "get_Calendar req rep =
     try_query ''select * from Calendar'' [] rep
       (\<lambda>err result oc.
          case err of
            Some e \<Rightarrow> oc
          | None \<Rightarrow> respond 200 (SendOf result) oc)
       (\<lambda>m. respond 500 (Json [(''message'', Str m)]))
       idle"

text \<open>\<^verbatim>\<open>app.get('/api/Calendar/:id', ...)\<close>\<close>

definition get_Calendar_id :: "request \<Rightarrow> reply \<Rightarrow> outcome" where
  "get_Calendar_id req rep =
     (let calendarId = parseInt (param req ''id'')
      in try_query (''select * from Calendar where Id='' @ ToString calendarId) [] rep
           (\<lambda>err result oc.
              let oc1 = (case err of
                           Some e \<Rightarrow> respond 404 (Json [(''message'', Str ''Calendar event not found'')]) oc
                         | None \<Rightarrow> oc)
              in respond 200 (SendOf result) oc1)
           (\<lambda>m. respond 500 (Json [(''message'', Str m)]))
           idle)"

text \<open>\<^verbatim>\<open>app.post('/api/Calendar', ...)\<close>\<close>

definition post_Calendar_sql :: "request \<Rightarrow> string" where
  "post_Calendar_sql request =
     (let name = field request ''name''; time = field request ''time'';
          month = field request ''month''; year = field request ''year'';
          department = field request ''department''; region = field request ''region'';
          dayFrom = field request ''dayFrom''; dayTo = field request ''dayTo'';
          sql = ''INSERT INTO Calendar\<newline>'' @
                ''    (name, time, month, year, department, region, dayFrom, dayTo) '' @
                ''VALUES \<newline>'' @ ''    ('' @ quoted (ToString name) @ '', '' @
                quoted (ToString time) @ '', '' @ quoted (ToString month) @ '', '' @
                quoted (ToString year) @ '', '' @ quoted (ToString department) @ '', '' @
                quoted (ToString region) @ '' , '' @ quoted (ToString dayFrom) @ '', '' @
                quoted (ToString dayTo) @ '')''
      in sql)"

definition post_Calendar :: "request \<Rightarrow> reply \<Rightarrow> outcome" where
  "post_Calendar request rep =
     try_query (post_Calendar_sql request) [] rep
       (\<lambda>err result oc.
          case err of
            Some e \<Rightarrow> oc
          | None \<Rightarrow> respond 200 (SendOf result) oc)
       (\<lambda>m. respond 400 (Json [(''message'', Str m)]))
       idle"

text \<open>\<^verbatim>\<open>app.put('/api/Calendar/{id}', ...)\<close>\<close>

definition put_Calendar_sql :: "request \<Rightarrow> string" where
  "put_Calendar_sql request =
     (let id = field request ''id''; name = field request ''name'';
          time = field request ''time''; month = field request ''month'';
          year = field request ''year''; department = field request ''department'';
          region = field request ''region''; dayFrom = field request ''dayFrom'';
          dayTo = field request ''dayTo'';
          sql = ''UPDATE Calendar\<newline>'' @ ''    SET name='' @ quoted (ToString name) @
                '', time='' @ quoted (ToString time) @ '', month='' @ quoted (ToString month) @
                '', year='' @ quoted (ToString year) @ '', department='' @
                quoted (ToString department) @ '', region='' @ quoted (ToString region) @
                '', dayFrom='' @ quoted (ToString dayFrom) @ '', dayTo='' @
                quoted (ToString dayTo) @ '') VALUES \<newline>'' @ ''    WHERE id='' @
                quoted (ToString id) @ '' ''
      in sql)"

definition put_Calendar :: "request \<Rightarrow> reply \<Rightarrow> outcome" where
  "put_Calendar request rep =
     try_query (put_Calendar_sql request) [] rep
       (\<lambda>err result oc.
          case err of
            Some e \<Rightarrow> oc
          | None \<Rightarrow> respond 200 (SendOf result) oc)
       (\<lambda>m. respond 400 (Json [(''message'', Str m)]))
       idle"

text \<open>\<^verbatim>\<open>app.delete('/api/Calendar/{id}', ...)\<close>\<close>

definition delete_Calendar :: "request \<Rightarrow> reply \<Rightarrow> outcome" where
  "delete_Calendar req rep =
     (let id = param req ''id''
      in try_query (''delete from Calendar where id='' @ ToString id) [] rep
           (\<lambda>err result oc.
              let oc1 = (case err of
                           Some e \<Rightarrow> respond 404 (Json [(''message'', Str ''Calendar not found'')]) oc
                         | None \<Rightarrow> oc)
              in respond 200 (SendOf result) oc1)
           (\<lambda>m. respond 500 (Json [(''message'', Str m)]))
           idle)"

section \<open>Assets routes\<close>

text \<open>\<^verbatim>\<open>app.get('/api/Assets', ...)\<close>\<close>

definition get_Assets :: "request \<Rightarrow> reply \<Rightarrow> outcome" where
  "get_Assets req rep =
     try_query ''select * from Assets'' [] rep
       (\<lambda>err result oc.
          case err of
            Some e \<Rightarrow> oc
          | None \<Rightarrow> respond 200 (SendOf result) oc)
       (\<lambda>m. respond 500 (Json [(''message'', Str m)]))
       idle"

text \<open>\<^verbatim>\<open>app.get('/api/Assets/:id', ...)\<close>\<close>

definition get_Assets_id :: "request \<Rightarrow> reply \<Rightarrow> outcome" where
  "get_Assets_id req rep =
     (let assetId = parseInt (param req ''id'')
      in try_query (''select * from Assets where asset_id='' @ ToString assetId) [] rep
           (\<lambda>err result oc.
              case err_or err (length_is_0 result) of
                Inl x \<Rightarrow> throw x oc
              | Inr b \<Rightarrow>
                  let oc1 = (if b then respond 404 (Json [(''message'', Str ''Asset not found'')]) oc
                             else oc)
                  in respond 200 (SendOf result) oc1)
           (\<lambda>m. respond 500 (Json [(''message'', Str m)]))
           idle)"

text \<open>\<^verbatim>\<open>app.post('/api/Assets', ...)\<close>\<close>

definition checkLocationSQL :: string where
  "checkLocationSQL = ''SELECT name FROM Locations WHERE location_id = ?''"

definition insertSQL :: string where
  "insertSQL =
     ''\<newline>'' @
     ''            INSERT INTO Assets (\<newline>'' @
     ''                location_id, name, description, purchase_date, purchase_price,\<newline>'' @
     ''                serial_number, category, `condition`, last_maintenance_date\<newline>'' @
     ''            )\<newline>'' @
     ''            VALUES (?, ?, ?, ?, ?, ?, ?, ?, ?)\<newline>'' @
     ''        ''"

text \<open>
  \<^verbatim>\<open>!locationResult || locationResult.length === 0\<close>, and then
  \<^verbatim>\<open>locationResult[0].name\<close>.
\<close>

definition no_location :: "dbresult \<Rightarrow> bool" where
  "no_location locationResult =
     (case locationResult of
        RUndefined \<Rightarrow> True
      | RRows rs \<Rightarrow> rs = []
      | ROk a i \<Rightarrow> False)"

definition first_name :: "dbresult \<Rightarrow> exn + jsval" where
  "first_name locationResult =
     (case locationResult of
        RRows (r # rs) \<Rightarrow> Inr (row_get r ''name'')
      | _ \<Rightarrow> Inl (TypeError ''name''))"

definition post_Assets :: "request \<Rightarrow> reply \<Rightarrow> reply \<Rightarrow> outcome" where
  "post_Assets req rep rep2 =
     (let location_id = field req ''location_id''; name = field req ''name'';
          description = field req ''description''; purchase_date = field req ''purchase_date'';
          purchase_price = field req ''purchase_price'';
          serial_number = field req ''serial_number''; category = field req ''category'';
          condition = field req ''condition'';
          last_maintenance_date = field req ''last_maintenance_date''
      in if falsy location_id \<or> isNaN location_id
         then respond 400 (Json [(''message'', Str ''Invalid or missing location_id'')]) idle
         else
           pool_query checkLocationSQL [location_id] rep
             (\<lambda>err locationResult oc.
                case err of
                  Some e \<Rightarrow> respond 500 (Json [(''message'', Str ''Database error'')]) oc
                | None \<Rightarrow>
                    if no_location locationResult
                    then respond 404 (Json [(''message'', Str ''Invalid location ID'')]) oc
                    else
                      (case first_name locationResult of
                         Inl x \<Rightarrow> throw x oc
                       | Inr location_name \<Rightarrow>
                           let values = [location_id, name, description, or_null purchase_date,
                                         or_null purchase_price, serial_number, category, condition,
                                         or_null last_maintenance_date]
                           in pool_query insertSQL values rep2
                                (\<lambda>err result oc.
                                   case err of
                                     Some e \<Rightarrow>
                                       respond 500
                                         (Json [(''message'', Str ''Error adding asset''),
                                                (''error'', Str (message e))]) oc
                                   | None \<Rightarrow>
                                       (case insertId_of result of
                                          Inl x \<Rightarrow> throw x oc
                                        | Inr insertId \<Rightarrow>
                                            respond 200
                                              (Json [(''message'',
                                                      Str (''Asset '' @ quoted (ToString name) @
                                                           '' added successfully at location '' @
                                                           quoted (ToString location_name))),
                                                     (''assetId'', V insertId)]) oc))
                                oc))
             idle)"

text \<open>\<^verbatim>\<open>app.put('/api/Assets/:id', ...)\<close>\<close>

definition put_Assets_sql :: "request \<Rightarrow> string" where
  "put_Assets_sql req =
     (let assetId = param req ''id'';
          location_id = field req ''location_id''; name = field req ''name'';
          description = field req ''description''; purchase_date = field req ''purchase_date'';
          purchase_price = field req ''purchase_price'';
          serial_number = field req ''serial_number''; category = field req ''category'';
          condition = field req ''condition'';
          last_maintenance_date = field req ''last_maintenance_date'';
          sql = ''UPDATE Assets SET \<newline>'' @
                ''        location_id='' @ quoted (ToString location_id) @
                '', name='' @ quoted (ToString name) @
                '', description='' @ quoted (ToString description) @
                '', purchase_date='' @ quoted (ToString purchase_date) @ '', \<newline>'' @
                ''        purchase_price='' @ ToString purchase_price @
                '', serial_number='' @ quoted (ToString serial_number) @
                '', category='' @ quoted (ToString category) @ '', \<newline>'' @
                ''        condition='' @ quoted (ToString condition) @
                '', last_maintenance_date='' @ quoted (ToString last_maintenance_date) @
                '' \<newline>'' @
                ''        WHERE asset_id='' @ ToString assetId
      in sql)"

definition put_Assets :: "request \<Rightarrow> reply \<Rightarrow> outcome" where
  "put_Assets req rep =
     try_query (put_Assets_sql req) [] rep
       (\<lambda>err result oc.
          case err_or err (affectedRows_is_0 result) of
            Inl x \<Rightarrow> throw x oc
          | Inr b \<Rightarrow>
              if b then respond 404 (Json [(''message'', Str ''Asset not found'')]) oc
              else respond 200 (SendOf result) oc)
       (\<lambda>m. respond 500 (Json [(''message'', Str m)]))
       idle"

text \<open>\<^verbatim>\<open>app.delete('/api/Assets/:id', ...)\<close>\<close>

definition delete_Assets :: "request \<Rightarrow> reply \<Rightarrow> outcome" where
  "delete_Assets req rep =
     (let assetId = param req ''id''
      in try_query (''DELETE FROM Assets WHERE asset_id='' @ ToString assetId) [] rep
           (\<lambda>err result oc.
              case err_or err (affectedRows_is_0 result) of
                Inl x \<Rightarrow> throw x oc
              | Inr b \<Rightarrow>
                  if b then respond 404 (Json [(''message'', Str ''Asset not found'')]) oc
                  else respond 200 (SendOf result) oc)
           (\<lambda>m. respond 500 (Json [(''message'', Str m)]))
           idle)"

section \<open>Locations routes\<close>

text \<open>\<^verbatim>\<open>app.get('/api/Locations', ...)\<close>\<close>

definition get_Locations :: "request \<Rightarrow> reply \<Rightarrow> outcome" where
  "get_Locations req rep =
     routed_query ''SELECT * FROM Locations'' [] rep
       (\<lambda>err result oc.
          case err of
            Some e \<Rightarrow> respond 500 (Json [(''message'', Str (message e))]) oc
          | None \<Rightarrow> respond 200 (JsonOf result) oc)
       idle"

text \<open>\<^verbatim>\<open>app.post('/api/Locations', ...)\<close>\<close>

definition post_Locations :: "request \<Rightarrow> reply \<Rightarrow> outcome" where
  "post_Locations req rep =
     (let name = field req ''name''; address = field req ''address'';
          contact_person = field req ''contact_person'';
          contact_phone = field req ''contact_phone'';
          sql = ''INSERT INTO Locations (name, address, contact_person, contact_phone) '' @
                ''VALUES (?, ?, ?, ?)''
      in routed_query sql [name, address, contact_person, contact_phone] rep
           (\<lambda>err result oc.
              case err of
                Some e \<Rightarrow> respond 400 (Json [(''message'', Str (message e))]) oc
              | None \<Rightarrow>
                  respond 201
                    (Json [(''message'', Str ''Location added successfully''), (''result'', R result)])
                    oc)
           idle)"

text \<open>\<^verbatim>\<open>app.put('/api/Locations/:id', ...)\<close>\<close>

definition put_Locations :: "request \<Rightarrow> reply \<Rightarrow> outcome" where
  "put_Locations req rep =
     (let locationId = parseInt (param req ''id'');
          name = field req ''name''; address = field req ''address'';
          contact_person = field req ''contact_person'';
          contact_phone = field req ''contact_phone'';
          sql = ''\<newline>'' @
                ''        UPDATE Locations SET name = ?, address = ?, contact_person = ?, '' @
                ''contact_phone = ? \<newline>'' @
                ''        WHERE location_id = ?\<newline>'' @
                ''    ''
      in routed_query sql [name, address, contact_person, contact_phone, locationId] rep
           (\<lambda>err result oc.
              case err_or err (affectedRows_is_0 result) of
                Inl x \<Rightarrow> throw x oc
              | Inr b \<Rightarrow>
                  if b
                  then respond 404 (Json [(''message'', Str ''Location not found or update failed'')]) oc
                  else
                    respond 200
                      (Json [(''message'', Str ''Location updated successfully''), (''result'', R result)])
                      oc)
           idle)"

text \<open>\<^verbatim>\<open>app.delete('/api/Locations/:id', ...)\<close>\<close>

definition delete_Locations :: "request \<Rightarrow> reply \<Rightarrow> outcome" where
  "delete_Locations req rep =
     (let locationId = parseInt (param req ''id'')
      in routed_query ''DELETE FROM Locations WHERE location_id = ?'' [locationId] rep
           (\<lambda>err result oc.
              case err_or err (affectedRows_is_0 result) of
                Inl x \<Rightarrow> throw x oc
              | Inr b \<Rightarrow>
                  if b then respond 404 (Json [(''message'', Str ''Location not found'')]) oc
                  else respond 200 (Json [(''message'', Str ''Location deleted successfully'')]) oc)
           idle)"

section \<open>The routing table\<close>

text \<open>
  The resources of the API and the five operations on a resource, with the handler
  \<^verbatim>\<open>index.js\<close> registers for each. No route is registered for reading one Location
  by its identifier. Only the handler that creates an Asset runs a second statement, and
  so only it looks at the second reply.
\<close>

datatype entity = Church | Person | Stats | User | Calendar | Asset | Location

datatype operation = ListAll | GetByID | Create | Update | Delete

type_synonym handler = "request \<Rightarrow> reply \<Rightarrow> reply \<Rightarrow> outcome"

fun route :: "entity \<Rightarrow> operation \<Rightarrow> handler option" where
  "route Church ListAll = Some (\<lambda>req rep rep2. get_Church req rep)"
| "route Church GetByID = Some (\<lambda>req rep rep2. get_Church_id req rep)"
| "route Church Create = Some (\<lambda>req rep rep2. post_Church req rep)"
| "route Church Update = Some (\<lambda>req rep rep2. put_Church req rep)"
| "route Church Delete = Some (\<lambda>req rep rep2. delete_Church req rep)"
| "route Person ListAll = Some (\<lambda>req rep rep2. get_Person req rep)"
| "route Person GetByID = Some (\<lambda>req rep rep2. get_Person_id req rep)"
| "route Person Create = Some (\<lambda>req rep rep2. post_Person req rep)"
| "route Person Update = Some (\<lambda>req rep rep2. put_Person req rep)"
| "route Person Delete = Some (\<lambda>req rep rep2. delete_Person req rep)"
| "route Stats ListAll = Some (\<lambda>req rep rep2. get_Stats req rep)"
| "route Stats GetByID = Some (\<lambda>req rep rep2. get_Stats_id req rep)"
| "route Stats Create = Some (\<lambda>req rep rep2. post_Stats req rep)"
| "route Stats Update = Some (\<lambda>req rep rep2. put_Stats req rep)"
| "route Stats Delete = Some (\<lambda>req rep rep2. delete_Stats req rep)"
| "route User ListAll = Some (\<lambda>req rep rep2. get_User req rep)"
| "route User GetByID = Some (\<lambda>req rep rep2. get_User_id req rep)"
| "route User Create = Some (\<lambda>req rep rep2. post_User req rep)"
| "route User Update = Some (\<lambda>req rep rep2. put_User req rep)"
| "route User Delete = Some (\<lambda>req rep rep2. delete_User req rep)"
| "route Calendar ListAll = Some (\<lambda>req rep rep2. get_Calendar req rep)"
| "route Calendar GetByID = Some (\<lambda>req rep rep2. get_Calendar_id req rep)"
| "route Calendar Create = Some (\<lambda>req rep rep2. post_Calendar req rep)"
| "route Calendar Update = Some (\<lambda>req rep rep2. put_Calendar req rep)"
| "route Calendar Delete = Some (\<lambda>req rep rep2. delete_Calendar req rep)"
| "route Asset ListAll = Some (\<lambda>req rep rep2. get_Assets req rep)"
| "route Asset GetByID = Some (\<lambda>req rep rep2. get_Assets_id req rep)"
| "route Asset Create = Some post_Assets"
| "route Asset Update = Some (\<lambda>req rep rep2. put_Assets req rep)"
| "route Asset Delete = Some (\<lambda>req rep rep2. delete_Assets req rep)"
| "route Location ListAll = Some (\<lambda>req rep rep2. get_Locations req rep)"
| "route Location GetByID = None"
| "route Location Create = Some (\<lambda>req rep rep2. post_Locations req rep)"
| "route Location Update = Some (\<lambda>req rep rep2. put_Locations req rep)"
| "route Location Delete = Some (\<lambda>req rep rep2. delete_Locations req rep)"

text \<open>
  The handlers whose reaction to a database error is an object holding \<^verbatim>\<open>err.message\<close>;
  the handler that creates an Asset does so too, for an error of its second statement.
\<close>

fun surfaces_driver_text :: "entity \<Rightarrow> operation \<Rightarrow> bool" where
  "surfaces_driver_text Church ListAll = True"
| "surfaces_driver_text Church Create = True"
| "surfaces_driver_text Church Update = True"
| "surfaces_driver_text Location ListAll = True"
| "surfaces_driver_text Location Create = True"
| "surfaces_driver_text E op = False"

text \<open>The text \<open>m\<close> is the value of a property of the object sent.\<close>

definition carries :: "string \<Rightarrow> payload \<Rightarrow> bool" where
  "carries m p = (case p of Json kvs \<Rightarrow> Str m \<in> set (map snd kvs) | _ \<Rightarrow> False)"

section \<open>A table behind the Church handlers\<close>

text \<open>
  Modelled from the spec: the state of the database behind the Query Executor, which is
  not part of the repository; here the rows of the Church table and the identifier the
  next insert will generate.
\<close>

record church_db =
  church_rows :: "row list"
  next_id :: nat

definition church_columns :: "string list" where
  "church_columns =
     [''churchName'', ''location'', ''branch'', ''province'', ''city'', ''region'', ''pastorId'']"

text \<open>
  Modelled from the spec: the value stored for a bound value, \<^verbatim>\<open>NULL\<close> when the
  handler binds \<^verbatim>\<open>undefined\<close>.
\<close>

definition bound_value :: "jsval \<Rightarrow> jsval" where
  "bound_value v = (if v = JUndefined then JNull else v)"

text \<open>
  Modelled from the spec: the constraints of the Church table (the types of its columns,
  the columns that cannot be null, its keys), which no file of the repository declares.
  They are a parameter: \<open>valid rows vals\<close> says that a table holding \<open>rows\<close> takes the
  seven values \<open>vals\<close> of a new row, and stores them as they are.
\<close>

type_synonym constraints = "row list \<Rightarrow> jsval list \<Rightarrow> bool"

text \<open>
  Modelled from the spec: the Query Executor, which is the \<^verbatim>\<open>mysql\<close> pool and the
  database behind it and is not part of the repository. The spec (4.2) has it accept a
  statement with positional placeholders and the values bound to them, and return the
  rows for a read, or the affected-row count and the generated identifier for an insert,
  or fail with a database error. This is that contract for the two statements of
  \<open>post_Church_stmt\<close> and \<open>get_Church_id_stmt\<close> over one table: an insert of values
  the table takes appends a row under the next identifier, and an insert of other values
  fails and changes nothing; a read by identifier returns the rows whose \<^verbatim>\<open>churchId\<close>
  is the bound value; any other statement is an error.
\<close>

definition exec_Church ::
  "constraints \<Rightarrow> string \<times> jsval list \<Rightarrow> church_db \<Rightarrow> reply \<times> church_db"
where
  "exec_Church valid q d =
     (if fst q = ''INSERT INTO Church (churchName, location, branch, province, city, region, '' @
                 ''pastorId) VALUES (?, ?, ?, ?, ?, ?, ?)'' \<and> length (snd q) = 7
      then
        if valid (church_rows d) (map bound_value (snd q))
        then (Calls None (ROk 1 (next_id d)),
              d\<lparr>church_rows := church_rows d @
                   [(''churchId'', JNum (int (next_id d))) #
                    zip church_columns (map bound_value (snd q))],
                next_id := next_id d + 1\<rparr>)
        else (Calls (Some (DbErr ''ER_CONSTRAINT'')) RUndefined, d)
      else if fst q = ''SELECT * FROM Church WHERE churchId = ?'' \<and> length (snd q) = 1
      then (Calls None (RRows (filter (\<lambda>r. [row_get r ''churchId''] = snd q) (church_rows d))), d)
      else (Calls (Some (DbErr ''ER_PARSE_ERROR'')) RUndefined, d))"

text \<open>The table after a sequence of statements.\<close>

fun run :: "constraints \<Rightarrow> (string \<times> jsval list) list \<Rightarrow> church_db \<Rightarrow> church_db" where
  "run valid [] d = d"
| "run valid (q # qs) d = run valid qs (snd (exec_Church valid q d))"

text \<open>Every row has an identifier that has been generated already.\<close>

definition ids_generated :: "church_db \<Rightarrow> bool" where
  "ids_generated d =
     list_all (\<lambda>r. list_ex (\<lambda>i. row_get r ''churchId'' = JNum (int i)) [0..<next_id d])
       (church_rows d)"

text \<open>
  One request served over the table: the handler \<open>h\<close> runs with a reply \<open>rep\<close>, the
  one statement its outcome records as handed to \<^verbatim>\<open>pool.query\<close> is \<open>q\<close>, and \<open>rep\<close> is
  what the executor answers to \<open>q\<close>, leaving the table \<open>d'\<close>.
\<close>

inductive serves ::
  "constraints \<Rightarrow> (request \<Rightarrow> reply \<Rightarrow> outcome) \<Rightarrow> request \<Rightarrow> church_db \<Rightarrow> outcome \<Rightarrow> church_db
     \<Rightarrow> bool"
where
  "queries (h req rep) = [q] \<Longrightarrow> exec_Church valid q d = (rep, d') \<Longrightarrow>
     serves valid h req d (h req rep) d'"

text \<open>The Record of a payload: its seven Church fields.\<close>

definition record_of :: "request \<Rightarrow> row" where
  "record_of req = map (\<lambda>k. (k, field req k)) church_columns"

section \<open>Example requests\<close>

definition req_projector :: request where
  "req_projector =
     \<lparr>params = Map.empty,
      body = [''location_id'' \<mapsto> JNum 7, ''name'' \<mapsto> JStr ''Projector'']\<rparr>"

definition req_move_asset :: request where
  "req_move_asset =
     \<lparr>params = [''id'' \<mapsto> ''3''],
      body = [''location_id'' \<mapsto> JNum 999, ''name'' \<mapsto> JStr ''Projector'']\<rparr>"

definition req_oneil :: request where
  "req_oneil =
     \<lparr>params = Map.empty,
      body = [''role'' \<mapsto> JNum 1, ''username'' \<mapsto> JStr ''o'neil'', ''password'' \<mapsto> JStr ''p'',
              ''personId'' \<mapsto> JNum 7]\<rparr>"

definition req_grace :: request where
  "req_grace =
     \<lparr>params = Map.empty,
      body = [''churchId'' \<mapsto> JNum 999, ''churchName'' \<mapsto> JStr ''Grace'',
              ''location'' \<mapsto> JStr ''Durban'']\<rparr>"

text \<open>A request that carries only the path parameter \<^verbatim>\<open>id\<close>.\<close>

definition req_id :: "string \<Rightarrow> request" where
  "req_id s = \<lparr>params = [''id'' \<mapsto> s], body = Map.empty\<rparr>"

text \<open>A request that carries only the path parameter \<^verbatim>\<open>churchId\<close>.\<close>

definition req_churchId :: "string \<Rightarrow> request" where
  "req_churchId s = \<lparr>params = [''churchId'' \<mapsto> s], body = Map.empty\<rparr>"

definition req_empty :: request where
  "req_empty = \<lparr>params = Map.empty, body = Map.empty\<rparr>"

definition req_stats :: request where
  "req_stats =
     \<lparr>params = Map.empty,
      body = [''statsId'' \<mapsto> JNum 999, ''adult'' \<mapsto> JNum 40, ''churchId'' \<mapsto> JNum 2]\<rparr>"

definition req_login :: request where
  "req_login =
     \<lparr>params = Map.empty,
      body = [''username'' \<mapsto> JStr ''bob'', ''password'' \<mapsto> JStr ''x'']\<rparr>"

definition req_new_church :: request where
  "req_new_church =
     \<lparr>params = Map.empty,
      body = [''churchName'' \<mapsto> JStr ''Grace'', ''location'' \<mapsto> JStr ''Durban'',
              ''branch'' \<mapsto> JStr ''Central'', ''province'' \<mapsto> JStr ''KZN'',
              ''city'' \<mapsto> JStr ''Durban'', ''region'' \<mapsto> JStr ''Coast'',
              ''pastorId'' \<mapsto> JNum 4]\<rparr>"

text \<open>A table that wants a name and a location, both strings, for every Church.\<close>

definition named_and_located :: constraints where
  "named_and_located rows vals =
     (case vals of
        JStr name # JStr location # rest \<Rightarrow> True
      | _ \<Rightarrow> False)"

text \<open>The table before any Church is created, and after the first one is.\<close>

definition db_empty :: church_db where
  "db_empty = \<lparr>church_rows = [], next_id = 1\<rparr>"

definition db_grace :: church_db where
  "db_grace =
     \<lparr>church_rows =
        [[(''churchId'', JNum 1), (''churchName'', JStr ''Grace''),
          (''location'', JStr ''Durban''), (''branch'', JStr ''Central''),
          (''province'', JStr ''KZN''), (''city'', JStr ''Durban''),
          (''region'', JStr ''Coast''), (''pastorId'', JNum 4)]],
      next_id = 2\<rparr>"

section \<open>Properties of the handlers\<close>

lemmas run_defs = try_query_def pool_query_def routed_query_def respond_def throw_def idle_def err_or_def
  length_is_0_def affectedRows_is_0_def insertId_of_def field_def param_def Let_def

lemmas parse_defs = parseInt_def is_ws_def is_digit_def digit_val_def digit_table_def
  digits_value_def to_double_def

subsection \<open>Statements built by interpolation\<close>

text \<open>
  C1 says that every operation on one row passes the identifier and all field values to
  the Query Executor as bound parameters, never inside the statement text, so that a
  value with a single quote is stored as it is. The handlers of Person, Stats, User,
  Calendar and, but for its insert, Asset do the opposite. Whatever the request, the
  statement that creates a Person is handed over with no bound value at all, every field
  being part of the text. Reading Person 12 puts the identifier into the text. Creating
  the User \<^verbatim>\<open>o'neil\<close> gives a text in which the quote of the name ends the SQL string
  literal early. The path parameter \<^verbatim>\<open>0 OR 1=1\<close> of a delete on Assets becomes the
  condition of the statement.
\<close>

theorem interpolated_statements:
  "queries (post_Person request rep) = [(post_Person_sql request, [])]
   \<and> queries (get_Person_id (req_id ''12'') rep) =
       [(''select * from Person where personId=12'', [])]
   \<and> queries (post_User req_oneil rep) =
       [(''INSERT INTO User\<newline>'' @
         ''    (role, username, password, personId) VALUES \<newline>'' @
         ''    ('1', 'o'neil', 'p', '7')'', [])]
   \<and> queries (delete_Assets (req_id ''0 OR 1=1'') rep) =
       [(''DELETE FROM Assets WHERE asset_id=0 OR 1=1'', [])]"
proof (intro conjI)
  show "queries (post_Person request rep) = [(post_Person_sql request, [])]"
    by (cases rep) (simp_all add: post_Person_def run_defs split: option.splits)
  show "queries (get_Person_id (req_id ''12'') rep) =
          [(''select * from Person where personId=12'', [])]"
    by (cases rep)
       (simp_all add: get_Person_id_def req_id_def run_defs parse_defs nat_digits.simps
          split: option.splits)
  show "queries (post_User req_oneil rep) =
          [(''INSERT INTO User\<newline>'' @
            ''    (role, username, password, personId) VALUES \<newline>'' @
            ''    ('1', 'o'neil', 'p', '7')'', [])]"
    by (cases rep)
       (simp_all add: post_User_def post_User_sql_def req_oneil_def quoted_def run_defs
          nat_digits.simps split: option.splits)
  show "queries (delete_Assets (req_id ''0 OR 1=1'') rep) =
          [(''DELETE FROM Assets WHERE asset_id=0 OR 1=1'', [])]"
    by (cases rep)
       (simp_all add: delete_Assets_def req_id_def run_defs split: option.splits dbresult.splits)
qed

subsection \<open>Zero affected rows\<close>

text \<open>
  C2 says that an Update or Delete that runs without a database error and affects no row
  is answered 404, never 200. The handler that updates a Church does not look at the
  count: for a \<^verbatim>\<open>churchId\<close> that matches no row, the executor reports zero affected rows
  and the answer is 200 with the message of success. The handler that updates a Stats
  row answers 200 with the packet that says zero rows.
\<close>

theorem zero_rows_reported_as_success:
  "sent (put_Church req_grace (Calls None (ROk 0 0))) =
     Some (200, Json [(''message'', Str ''Church updated successfully''),
                      (''result'', R (ROk 0 0))])
   \<and> sent (put_Stats req_stats (Calls None (ROk 0 0))) = Some (200, SendOf (ROk 0 0))"
  by (simp add: put_Church_def put_Stats_def req_grace_def req_stats_def run_defs)

subsection \<open>Reading a row that does not exist\<close>

text \<open>
  C3 says that GetByID on an identifier no row has is answered 404, never 200 with an
  empty result. The handler that reads a Person answers 404 only on a database error:
  when the SELECT for Person 999 returns no row, it answers 200 with the empty array.
\<close>

theorem get_Person_id_absent_row:
  "get_Person_id (req_id ''999'') (Calls None (RRows [])) =
     \<lparr>queries = [(''select * from Person where personId=999'', [])],
      sent = Some (200, SendOf (RRows [])),
      thrown = None\<rparr>"
  by (simp add: get_Person_id_def req_id_def run_defs parse_defs nat_digits.simps)

subsection \<open>The location of an Asset\<close>

text \<open>
  C4, for the part that holds. The handler that creates an Asset answers 400 and issues
  no statement when \<^verbatim>\<open>location_id\<close> is falsy or NaN. Otherwise it first looks the
  location up in Locations, with \<^verbatim>\<open>location_id\<close> as the bound value. If the lookup
  finds no row, the answer is 404 with the message \<^verbatim>\<open>Invalid location ID\<close>, and the
  lookup stays the only statement: no INSERT is issued. If the lookup finds a row and the
  INSERT succeeds, the message of the answer names the asset and the \<^verbatim>\<open>name\<close> of the
  row found.
\<close>

theorem post_Assets_location_check:
  "(falsy (field req ''location_id'') \<or> isNaN (field req ''location_id'') \<longrightarrow>
      post_Assets req rep rep2 =
        \<lparr>queries = [],
         sent = Some (400, Json [(''message'', Str ''Invalid or missing location_id'')]),
         thrown = None\<rparr>)
   \<and> (\<not> falsy (field req ''location_id'') \<and> \<not> isNaN (field req ''location_id'') \<longrightarrow>
        (\<exists>qs. queries (post_Assets req rep rep2) =
                 (checkLocationSQL, [field req ''location_id'']) # qs)
        \<and> (no_location locationResult \<longrightarrow>
             post_Assets req (Calls None locationResult) rep2 =
               \<lparr>queries = [(checkLocationSQL, [field req ''location_id''])],
                sent = Some (404, Json [(''message'', Str ''Invalid location ID'')]),
                thrown = None\<rparr>)
        \<and> post_Assets req (Calls None (RRows (r # rs))) (Calls None (ROk a i)) =
             \<lparr>queries =
                [(checkLocationSQL, [field req ''location_id'']),
                 (insertSQL,
                  [field req ''location_id'', field req ''name'', field req ''description'',
                   or_null (field req ''purchase_date''), or_null (field req ''purchase_price''),
                   field req ''serial_number'', field req ''category'', field req ''condition'',
                   or_null (field req ''last_maintenance_date'')])],
              sent = Some (200,
                Json [(''message'',
                       Str (''Asset '' @ quoted (ToString (field req ''name'')) @
                            '' added successfully at location '' @
                            quoted (ToString (row_get r ''name'')))),
                      (''assetId'', V (JNum (int i)))]),
              thrown = None\<rparr>)"
proof (intro conjI impI)
  assume "falsy (field req ''location_id'') \<or> isNaN (field req ''location_id'')"
  then show "post_Assets req rep rep2 =
        \<lparr>queries = [],
         sent = Some (400, Json [(''message'', Str ''Invalid or missing location_id'')]),
         thrown = None\<rparr>"
    by (auto simp add: post_Assets_def respond_def idle_def Let_def)
next
  assume "\<not> falsy (field req ''location_id'') \<and> \<not> isNaN (field req ''location_id'')"
  then show "\<exists>qs. queries (post_Assets req rep rep2) =
                 (checkLocationSQL, [field req ''location_id'']) # qs"
    by (cases rep; cases rep2)
       (auto simp add: post_Assets_def try_query_def pool_query_def routed_query_def respond_def throw_def
          idle_def insertId_of_def Let_def
          split: option.splits dbresult.splits sum.splits)
next
  assume "\<not> falsy (field req ''location_id'') \<and> \<not> isNaN (field req ''location_id'')"
    and "no_location locationResult"
  then show "post_Assets req (Calls None locationResult) rep2 =
              \<lparr>queries = [(checkLocationSQL, [field req ''location_id''])],
               sent = Some (404, Json [(''message'', Str ''Invalid location ID'')]),
               thrown = None\<rparr>"
    by (simp add: post_Assets_def try_query_def pool_query_def routed_query_def respond_def throw_def idle_def
          Let_def)
next
  assume "\<not> falsy (field req ''location_id'') \<and> \<not> isNaN (field req ''location_id'')"
  then show "post_Assets req (Calls None (RRows (r # rs))) (Calls None (ROk a i)) =
            \<lparr>queries =
               [(checkLocationSQL, [field req ''location_id'']),
                (insertSQL,
                 [field req ''location_id'', field req ''name'', field req ''description'',
                  or_null (field req ''purchase_date''), or_null (field req ''purchase_price''),
                  field req ''serial_number'', field req ''category'', field req ''condition'',
                  or_null (field req ''last_maintenance_date'')])],
             sent = Some (200,
               Json [(''message'',
                      Str (''Asset '' @ quoted (ToString (field req ''name'')) @
                           '' added successfully at location '' @
                           quoted (ToString (row_get r ''name'')))),
                     (''assetId'', V (JNum (int i)))]),
             thrown = None\<rparr>"
    by (simp add: post_Assets_def try_query_def pool_query_def routed_query_def respond_def throw_def idle_def
          insertId_of_def no_location_def first_name_def Let_def)
qed

text \<open>
  C4 at a request with no \<^verbatim>\<open>location_id\<close>, and at a request for a projector at
  location 7: the lookup that finds nothing, and the lookup that finds the location
  \<^verbatim>\<open>HQ\<close>.
\<close>

theorem post_Assets_location_check_witness:
  "(falsy (field req_empty ''location_id'') \<or> isNaN (field req_empty ''location_id''))
   \<and> post_Assets req_empty (Calls None RUndefined) (Calls None RUndefined) =
        \<lparr>queries = [],
         sent = Some (400, Json [(''message'', Str ''Invalid or missing location_id'')]),
         thrown = None\<rparr>
   \<and> \<not> falsy (field req_projector ''location_id'') \<and> \<not> isNaN (field req_projector ''location_id'')
   \<and> no_location (RRows [])
   \<and> post_Assets req_projector (Calls None (RRows [])) (Calls None RUndefined) =
        \<lparr>queries = [(checkLocationSQL, [JNum 7])],
         sent = Some (404, Json [(''message'', Str ''Invalid location ID'')]),
         thrown = None\<rparr>
   \<and> sent (post_Assets req_projector (Calls None (RRows [[(''name'', JStr ''HQ'')]]))
              (Calls None (ROk 1 12))) =
        Some (200,
          Json [(''message'',
                 Str (''Asset '' @ quoted ''Projector'' @ '' added successfully at location '' @
                      quoted ''HQ'')),
                (''assetId'', V (JNum 12))])"
proof -
  have g0: "falsy (field req_empty ''location_id'') \<or> isNaN (field req_empty ''location_id'')"
    by (simp add: req_empty_def field_def falsy_def)
  have g: "\<not> falsy (field req_projector ''location_id'')
           \<and> \<not> isNaN (field req_projector ''location_id'')"
    by (simp add: req_projector_def field_def falsy_def)
  have n: "no_location (RRows [])"
    by (simp add: no_location_def)
  have a: "post_Assets req_empty (Calls None RUndefined) (Calls None RUndefined) =
        \<lparr>queries = [],
         sent = Some (400, Json [(''message'', Str ''Invalid or missing location_id'')]),
         thrown = None\<rparr>"
    using g0 post_Assets_location_check [of req_empty "Calls None RUndefined"
               "Calls None RUndefined"]
    by blast
  have b: "post_Assets req_projector (Calls None (RRows [])) (Calls None RUndefined) =
        \<lparr>queries = [(checkLocationSQL, [field req_projector ''location_id''])],
         sent = Some (404, Json [(''message'', Str ''Invalid location ID'')]),
         thrown = None\<rparr>"
    using g n post_Assets_location_check [of req_projector "Calls None (RRows [])"
               "Calls None RUndefined" "RRows []"]
    by blast
  have c: "sent (post_Assets req_projector (Calls None (RRows [[(''name'', JStr ''HQ'')]]))
              (Calls None (ROk 1 12))) =
        Some (200,
          Json [(''message'',
                 Str (''Asset '' @ quoted (ToString (field req_projector ''name'')) @
                      '' added successfully at location '' @
                      quoted (ToString (row_get [(''name'', JStr ''HQ'')] ''name'')))),
                (''assetId'', V (JNum (int 12)))])"
    using g post_Assets_location_check [of req_projector "Calls None (RRows [])"
               "Calls None RUndefined" "RRows []" "[(''name'', JStr ''HQ'')]" "[]" 1 12]
    by simp
  have v: "field req_projector ''location_id'' = JNum 7"
          "field req_projector ''name'' = JStr ''Projector''"
          "row_get [(''name'', JStr ''HQ'')] ''name'' = JStr ''HQ''"
    by (simp_all add: req_projector_def field_def row_get_def)
  from g0 g n a b c show ?thesis
    by (simp add: v)
qed

text \<open>
  C4 fails for Update. The handler that updates an Asset hands over one statement, the
  UPDATE itself, whatever the executor then answers, and replies 200 when a row is
  affected: asset 3 is moved to location 999 and nothing has looked location 999 up.
\<close>

theorem put_Assets_no_location_check:
  "put_Assets req_move_asset (Calls None (ROk 1 0)) =
     \<lparr>queries = [(put_Assets_sql req_move_asset, [])],
      sent = Some (200, SendOf (ROk 1 0)),
      thrown = None\<rparr>
   \<and> queries (put_Assets req_move_asset (Calls (Some (DbErr ''ER_PARSE_ERROR'')) RUndefined)) =
       [(put_Assets_sql req_move_asset, [])]
   \<and> take 17 (put_Assets_sql req_move_asset) = ''UPDATE Assets SET''"
  by (simp add: put_Assets_def put_Assets_sql_def req_move_asset_def run_defs)

subsection \<open>Login with a wrong password\<close>

text \<open>
  A number and a string are compared as two doubles: the digits \<^verbatim>\<open>9007199254740993\<close>
  denote \<open>2 ^ 53 + 1\<close>, which rounds to \<open>2 ^ 53\<close>, and a 1 in the twentieth decimal
  place is lost, whereas \<^verbatim>\<open>1.0000000000000002\<close> is the double next to 1.
\<close>

lemma log2_examples: "log2 (Suc 0) = 0" "log2 9007199254740992 = 53"
  by (simp_all add: log2.simps)

lemmas num_defs = num_eq_str_def StringToNumber_def trim_def unsigned_decimal_def
  exponent_part_def radix_literal_def negate_def rounds_to_def is_ws_def is_digit_def
  digit_val_def digit_table_def digits_value_def Let_def

lemma loose_eq_rounds:
  "loose_eq (JStr ''9007199254740993'') (JNum 9007199254740992)"
  "loose_eq (JStr ''1.00000000000000000001'') (JNum 1)"
  "\<not> loose_eq (JStr ''1.0000000000000002'') (JNum 1)"
  "loose_eq (JNum 0) (JStr ''1e-400'')"
  by (simp_all add: num_defs log2_examples)


text \<open>
  C5, for the part that holds. When the lookup returns a row for the username and the
  password of the request is not equal to the stored one, by the \<^verbatim>\<open>!=\<close> of the code,
  the response written to the client is 401, and its body is the text
  \<^verbatim>\<open>Unaurthorized, invalid password\<close>: the body names the password as the cause.
\<close>

theorem post_Login_wrong_password:
  assumes "loose_neq (row_get (json_copy_row r) ''password'') (field request ''password'')"
  shows "sent (post_Login request (Calls None (RRows (r # rs)))) =
           Some (401, Text ''Unaurthorized, invalid password'')"
  using assms
  by (simp add: post_Login_def json_copy_def first_password_def run_defs)

text \<open>C5 at the user \<^verbatim>\<open>bob\<close>, whose stored password is \<^verbatim>\<open>secret\<close>, trying \<^verbatim>\<open>x\<close>.\<close>

theorem post_Login_wrong_password_witness:
  "loose_neq (row_get (json_copy_row [(''password'', JStr ''secret'')]) ''password'')
     (field req_login ''password'')
   \<and> sent (post_Login req_login (Calls None (RRows [[(''password'', JStr ''secret'')]]))) =
       Some (401, Text ''Unaurthorized, invalid password'')"
proof -
  have h: "loose_neq (row_get (json_copy_row [(''password'', JStr ''secret'')]) ''password'')
     (field req_login ''password'')"
    by (simp add: loose_neq_def row_get_def json_copy_row_def req_login_def field_def)
  from h post_Login_wrong_password [OF h, of "[]"] show ?thesis by simp
qed

text \<open>
  C5 fails as stated. For \<^verbatim>\<open>bob\<close> with a wrong password the handler writes the 401 and
  then goes on to send the 200 of a successful login, which raises
  \<^verbatim>\<open>ERR_HTTP_HEADERS_SENT\<close>: it has not responded exactly once. And the outcome tells
  the two failures apart: the body says that the password is invalid, whereas for a
  username with no row the handler writes no response at all, its callback ending in a
  TypeError on \<^verbatim>\<open>res[0].password\<close>.
\<close>

theorem post_Login_discloses:
  "post_Login req_login (Calls None (RRows [[(''password'', JStr ''secret'')]])) =
     \<lparr>queries = [(''select password from User where username=?'', [JStr ''bob''])],
      sent = Some (401, Text ''Unaurthorized, invalid password''),
      thrown = Some ERR_HTTP_HEADERS_SENT\<rparr>
   \<and> post_Login req_login (Calls None (RRows [])) =
     \<lparr>queries = [(''select password from User where username=?'', [JStr ''bob''])],
      sent = None,
      thrown = Some (TypeError ''password'')\<rparr>"
  by (simp add: post_Login_def json_copy_def json_copy_row_def first_password_def row_get_def
        loose_neq_def req_login_def run_defs)

subsection \<open>The answer to a successful Create\<close>

text \<open>
  C6, as the code has it. When the executor reports no error, creating a Church or a
  Location is answered 201 with a message of confirmation and the executor's result,
  which holds the generated identifier. Creating an Asset (its location accepted and
  found, the insert reporting identifier \<open>i\<close>) is answered 200 with a message of
  confirmation and \<open>i\<close> as \<^verbatim>\<open>assetId\<close>. Creating a Person, a Stats row, a User or a
  Calendar event is answered 200 with the executor's result alone.
\<close>

theorem create_success_responses:
  "sent (post_Church req (Calls None result)) =
     Some (201, Json [(''message'', Str ''Church created successfully''), (''result'', R result)])
   \<and> sent (post_Locations req (Calls None result)) =
     Some (201, Json [(''message'', Str ''Location added successfully''), (''result'', R result)])
   \<and> (\<not> falsy (field req ''location_id'') \<and> \<not> isNaN (field req ''location_id'') \<longrightarrow>
        sent (post_Assets req (Calls None (RRows (r # rs))) (Calls None (ROk a i))) =
          Some (200,
            Json [(''message'',
                   Str (''Asset '' @ quoted (ToString (field req ''name'')) @
                        '' added successfully at location '' @
                        quoted (ToString (row_get r ''name'')))),
                  (''assetId'', V (JNum (int i)))]))
   \<and> sent (post_Person req (Calls None result)) = Some (200, SendOf result)
   \<and> sent (post_Stats req (Calls None result)) = Some (200, SendOf result)
   \<and> sent (post_User req (Calls None result)) = Some (200, SendOf result)
   \<and> sent (post_Calendar req (Calls None result)) = Some (200, SendOf result)"
  by (simp add: post_Church_def post_Locations_def post_Assets_def post_Person_def post_Stats_def
        post_User_def post_Calendar_def no_location_def first_name_def
        try_query_def pool_query_def routed_query_def respond_def throw_def idle_def insertId_of_def Let_def)

text \<open>C6 at the projector for location 7, which the lookup finds under the name \<^verbatim>\<open>HQ\<close>.\<close>

theorem create_success_responses_witness:
  "\<not> falsy (field req_projector ''location_id'') \<and> \<not> isNaN (field req_projector ''location_id'')
   \<and> sent (post_Assets req_projector (Calls None (RRows [[(''name'', JStr ''HQ'')]]))
             (Calls None (ROk 1 12))) =
       Some (200,
         Json [(''message'',
                Str (''Asset '' @ quoted ''Projector'' @ '' added successfully at location '' @
                     quoted ''HQ'')),
               (''assetId'', V (JNum 12))])
   \<and> sent (post_Church req_projector (Calls None (ROk 1 12))) =
       Some (201, Json [(''message'', Str ''Church created successfully''),
                        (''result'', R (ROk 1 12))])"
proof -
  have g: "\<not> falsy (field req_projector ''location_id'')
           \<and> \<not> isNaN (field req_projector ''location_id'')"
    by (simp add: req_projector_def field_def falsy_def)
  from g create_success_responses
         [of req_projector "ROk 1 12" "[(''name'', JStr ''HQ'')]" "[]" 1 12]
  show ?thesis
    by (simp add: req_projector_def field_def row_get_def)
qed

text \<open>
  C6 fails as stated: the successful creation of an Asset is answered 200, not 201, and
  that of a Person 200 with the executor's packet and no message.
\<close>

theorem create_not_always_201:
  "sent (post_Assets req_projector (Calls None (RRows [[(''name'', JStr ''HQ'')]]))
          (Calls None (ROk 1 12))) =
     Some (200,
       Json [(''message'',
              Str (''Asset '' @ quoted ''Projector'' @ '' added successfully at location '' @
                   quoted ''HQ'')),
             (''assetId'', V (JNum 12))])
   \<and> sent (post_Person req_empty (Calls None (ROk 1 5))) = Some (200, SendOf (ROk 1 5))"
  by (simp add: post_Assets_def post_Person_def req_projector_def req_empty_def no_location_def
        first_name_def row_get_def falsy_def run_defs)

subsection \<open>Create with fields missing\<close>

text \<open>
  C7, as the code has it. No Create handler checks the body for required fields, but for
  the Asset handler and its \<^verbatim>\<open>location_id\<close>. Whatever the body holds, the handlers of
  Church, Person, Stats, User, Calendar and Location hand their INSERT to the executor;
  a 400 comes from Church and Location only when the executor reports an error, and
  carries the executor's message. The Asset handler answers 400 with the message
  \<^verbatim>\<open>Invalid or missing location_id\<close>, and issues no statement, when \<^verbatim>\<open>location_id\<close> is
  absent (or otherwise falsy, or NaN).
\<close>

theorem create_without_validation:
  "queries (post_Church req rep) = [post_Church_stmt req]
   \<and> queries (post_Person req rep) = [(post_Person_sql req, [])]
   \<and> queries (post_Stats req rep) = [(post_Stats_sql req, [])]
   \<and> queries (post_User req rep) = [(post_User_sql req, [])]
   \<and> queries (post_Calendar req rep) = [(post_Calendar_sql req, [])]
   \<and> queries (post_Locations req rep) =
       [(''INSERT INTO Locations (name, address, contact_person, contact_phone) '' @
         ''VALUES (?, ?, ?, ?)'',
         [field req ''name'', field req ''address'', field req ''contact_person'',
          field req ''contact_phone''])]
   \<and> sent (post_Church req (Calls (Some e) result)) =
       Some (400, Json [(''error'', Str (message e))])
   \<and> sent (post_Locations req (Calls (Some e) result)) =
       Some (400, Json [(''message'', Str (message e))])
   \<and> (falsy (field req ''location_id'') \<or> isNaN (field req ''location_id'') \<longrightarrow>
        post_Assets req rep rep2 =
          \<lparr>queries = [],
           sent = Some (400, Json [(''message'', Str ''Invalid or missing location_id'')]),
           thrown = None\<rparr>)"
proof (intro conjI impI)
  show "queries (post_Church req rep) = [post_Church_stmt req]"
    by (cases rep) (simp_all add: post_Church_def run_defs split: option.splits)
  show "queries (post_Person req rep) = [(post_Person_sql req, [])]"
    by (cases rep) (simp_all add: post_Person_def run_defs split: option.splits)
  show "queries (post_Stats req rep) = [(post_Stats_sql req, [])]"
    by (cases rep) (simp_all add: post_Stats_def run_defs split: option.splits)
  show "queries (post_User req rep) = [(post_User_sql req, [])]"
    by (cases rep) (simp_all add: post_User_def run_defs split: option.splits)
  show "queries (post_Calendar req rep) = [(post_Calendar_sql req, [])]"
    by (cases rep) (simp_all add: post_Calendar_def run_defs split: option.splits)
  show "queries (post_Locations req rep) =
       [(''INSERT INTO Locations (name, address, contact_person, contact_phone) '' @
         ''VALUES (?, ?, ?, ?)'',
         [field req ''name'', field req ''address'', field req ''contact_person'',
          field req ''contact_phone''])]"
    by (cases rep) (simp_all add: post_Locations_def run_defs split: option.splits)
  show "sent (post_Church req (Calls (Some e) result)) =
       Some (400, Json [(''error'', Str (message e))])"
    by (simp add: post_Church_def run_defs)
  show "sent (post_Locations req (Calls (Some e) result)) =
       Some (400, Json [(''message'', Str (message e))])"
    by (simp add: post_Locations_def run_defs)
  assume "falsy (field req ''location_id'') \<or> isNaN (field req ''location_id'')"
  then show "post_Assets req rep rep2 =
          \<lparr>queries = [],
           sent = Some (400, Json [(''message'', Str ''Invalid or missing location_id'')]),
           thrown = None\<rparr>"
    by (auto simp add: post_Assets_def respond_def idle_def Let_def)
qed

text \<open>C7 at the empty body.\<close>

theorem create_without_validation_witness:
  "(falsy (field req_empty ''location_id'') \<or> isNaN (field req_empty ''location_id''))
   \<and> post_Assets req_empty (Calls None RUndefined) (Calls None RUndefined) =
       \<lparr>queries = [],
        sent = Some (400, Json [(''message'', Str ''Invalid or missing location_id'')]),
        thrown = None\<rparr>
   \<and> queries (post_Church req_empty (Calls None (ROk 1 1))) = [post_Church_stmt req_empty]"
proof -
  have g: "falsy (field req_empty ''location_id'') \<or> isNaN (field req_empty ''location_id'')"
    by (simp add: req_empty_def field_def falsy_def)
  from g
    create_without_validation [of req_empty "Calls None (ROk 1 1)" "DbErr []" RUndefined]
    create_without_validation [of req_empty "Calls None RUndefined" "DbErr []" RUndefined
                                  "Calls None RUndefined"]
  show ?thesis by simp
qed

text \<open>
  C7 fails as stated: a Church created from the empty body, with the required
  \<^verbatim>\<open>churchName\<close> and \<^verbatim>\<open>location\<close> absent, has its INSERT issued with seven values
  \<^verbatim>\<open>undefined\<close>, and is answered 201 when the executor accepts it.
\<close>

theorem post_Church_empty_body:
  "post_Church req_empty (Calls None (ROk 1 1)) =
     \<lparr>queries =
        [(''INSERT INTO Church (churchName, location, branch, province, city, region, '' @
          ''pastorId) VALUES (?, ?, ?, ?, ?, ?, ?)'',
          [JUndefined, JUndefined, JUndefined, JUndefined, JUndefined, JUndefined, JUndefined])],
      sent = Some (201, Json [(''message'', Str ''Church created successfully''),
                              (''result'', R (ROk 1 1))]),
      thrown = None\<rparr>"
  by (simp add: post_Church_def post_Church_stmt_def req_empty_def run_defs)

subsection \<open>The answer to a database error\<close>

text \<open>
  C8, as the code has it. Let the executor report the error \<open>e\<close>. The handlers that
  list, create and update a Church and list and create a Location answer with an object
  that holds the driver's text \<^verbatim>\<open>err.message\<close>; so does the handler that creates an
  Asset, when the error is that of the insert. For every other handler of the routing
  table, and for the login, the response (if one is written at all) is the same whatever
  the error is.
\<close>

theorem database_error_responses:
  "(route E op = Some h \<and> surfaces_driver_text E op \<longrightarrow>
      (\<exists>c p. sent (h req (Calls (Some e) result) rep2) = Some (c, p) \<and> carries (message e) p))
   \<and> (route E op = Some h \<and> \<not> surfaces_driver_text E op \<longrightarrow>
        sent (h req (Calls (Some e) result) rep2) = sent (h req (Calls (Some e') result) rep2))
   \<and> (\<not> falsy (field req ''location_id'') \<and> \<not> isNaN (field req ''location_id'') \<longrightarrow>
        sent (post_Assets req (Calls None (RRows (r # rs))) (Calls (Some e) result)) =
          Some (500, Json [(''message'', Str ''Error adding asset''),
                           (''error'', Str (message e))]))
   \<and> sent (post_Login req (Calls (Some e) result)) =
       sent (post_Login req (Calls (Some e') result))"
proof (intro conjI impI)
  assume "route E op = Some h \<and> surfaces_driver_text E op"
  then show "\<exists>c p. sent (h req (Calls (Some e) result) rep2) = Some (c, p)
                     \<and> carries (message e) p"
    by (cases E; cases op)
       (auto simp add: carries_def get_Church_def post_Church_def put_Church_def
          get_Locations_def post_Locations_def run_defs)
next
  assume a: "route E op = Some h \<and> \<not> surfaces_driver_text E op"
  show "sent (h req (Calls (Some e) result) rep2) = sent (h req (Calls (Some e') result) rep2)"
  proof (cases E)
    case Church
    with a show ?thesis
      by (cases op) (auto simp add: get_Church_id_def delete_Church_def run_defs)
  next
    case Person
    with a show ?thesis
      by (cases op)
         (auto simp add: get_Person_def get_Person_id_def post_Person_def put_Person_def
            delete_Person_def run_defs)
  next
    case Stats
    with a show ?thesis
      by (cases op)
         (auto simp add: get_Stats_def get_Stats_id_def post_Stats_def put_Stats_def
            delete_Stats_def run_defs)
  next
    case User
    with a show ?thesis
      by (cases op)
         (auto simp add: get_User_def get_User_id_def post_User_def put_User_def
            delete_User_def run_defs)
  next
    case Calendar
    with a show ?thesis
      by (cases op)
         (auto simp add: get_Calendar_def get_Calendar_id_def post_Calendar_def
            put_Calendar_def delete_Calendar_def run_defs)
  next
    case Asset
    with a show ?thesis
      by (cases op)
         (auto simp add: get_Assets_def get_Assets_id_def post_Assets_def put_Assets_def
            delete_Assets_def run_defs)
  next
    case Location
    with a show ?thesis
      by (cases op) (auto simp add: put_Locations_def delete_Locations_def run_defs)
  qed
next
  assume "\<not> falsy (field req ''location_id'') \<and> \<not> isNaN (field req ''location_id'')"
  then show "sent (post_Assets req (Calls None (RRows (r # rs))) (Calls (Some e) result)) =
          Some (500, Json [(''message'', Str ''Error adding asset''),
                           (''error'', Str (message e))])"
    by (simp add: post_Assets_def no_location_def first_name_def try_query_def pool_query_def routed_query_def
          respond_def throw_def idle_def Let_def)
next
  show "sent (post_Login req (Calls (Some e) result)) =
       sent (post_Login req (Calls (Some e') result))"
    by (simp add: post_Login_def json_copy_def run_defs split: dbresult.splits)
qed

text \<open>
  C8 at the list of churches, which carries the error's text; at the read of one Church,
  whose answer is the same for two different errors; and at the insert of the projector.
\<close>

theorem database_error_responses_witness:
  "route Church ListAll = Some (\<lambda>req rep rep2. get_Church req rep)
   \<and> surfaces_driver_text Church ListAll
   \<and> (\<exists>c p. sent (get_Church req_empty (Calls (Some (DbErr ''ER_CON_COUNT_ERROR'')) RUndefined)) =
              Some (c, p) \<and> carries ''ER_CON_COUNT_ERROR'' p)
   \<and> route Church GetByID = Some (\<lambda>req rep rep2. get_Church_id req rep)
   \<and> \<not> surfaces_driver_text Church GetByID
   \<and> sent (get_Church_id req_empty (Calls (Some (DbErr ''ER_CON_COUNT_ERROR'')) RUndefined)) =
       sent (get_Church_id req_empty (Calls (Some (DbErr ''ECONNREFUSED'')) RUndefined))
   \<and> \<not> falsy (field req_projector ''location_id'') \<and> \<not> isNaN (field req_projector ''location_id'')
   \<and> sent (post_Assets req_projector (Calls None (RRows [[(''name'', JStr ''HQ'')]]))
             (Calls (Some (DbErr ''ER_CON_COUNT_ERROR'')) RUndefined)) =
       Some (500, Json [(''message'', Str ''Error adding asset''),
                        (''error'', Str ''ER_CON_COUNT_ERROR'')])"
proof -
  have g: "\<not> falsy (field req_projector ''location_id'')
           \<and> \<not> isNaN (field req_projector ''location_id'')"
    by (simp add: req_projector_def field_def falsy_def)
  note a = database_error_responses [of Church ListAll "\<lambda>req rep rep2. get_Church req rep"
      req_empty "DbErr ''ER_CON_COUNT_ERROR''" RUndefined "Calls None RUndefined"
      "DbErr ''ECONNREFUSED''"]
  note b = database_error_responses [of Church GetByID "\<lambda>req rep rep2. get_Church_id req rep"
      req_projector "DbErr ''ER_CON_COUNT_ERROR''" RUndefined "Calls None RUndefined"
      "DbErr ''ECONNREFUSED''" "[(''name'', JStr ''HQ'')]" "[]"]
  note c = database_error_responses [of Church GetByID "\<lambda>req rep rep2. get_Church_id req rep"
      req_empty "DbErr ''ER_CON_COUNT_ERROR''" RUndefined "Calls None RUndefined"
      "DbErr ''ECONNREFUSED''"]
  from g a b c show ?thesis by simp
qed

text \<open>
  C8 fails as stated: when the SELECT behind the list of churches fails, the body of the
  500 is the driver's own text, here with a user name and a host.
\<close>

theorem get_Church_surfaces_error:
  "get_Church req_empty
     (Calls (Some (DbErr ''ER_ACCESS_DENIED_ERROR: Access denied for user admin@10.0.0.5''))
        RUndefined) =
     \<lparr>queries = [(''SELECT * FROM Church'', [])],
      sent = Some (500,
        Json [(''error'', Str ''ER_ACCESS_DENIED_ERROR: Access denied for user admin@10.0.0.5'')]),
      thrown = None\<rparr>"
  by (simp add: get_Church_def run_defs)

subsection \<open>Create, then read by the generated identifier\<close>

text \<open>
  The table keeps its identifiers apart: in a table that starts without rows, whatever
  statements are run, every row has an identifier generated before, so that no row has
  the identifier the next insert will generate.
\<close>

lemma ids_generated_empty: "church_rows d = [] \<Longrightarrow> ids_generated d"
  by (simp add: ids_generated_def)

lemma ids_generated_iff:
  "ids_generated d \<longleftrightarrow>
     (\<forall>r \<in> set (church_rows d). \<exists>i < next_id d. row_get r ''churchId'' = JNum (int i))"
  by (auto simp add: ids_generated_def list_all_iff list_ex_iff)

lemma ids_generated_exec:
  assumes "ids_generated d"
  shows "ids_generated (snd (exec_Church valid q d))"
proof -
  have new: "row_get ((''churchId'', JNum (int (next_id d))) # kvs) ''churchId'' =
      JNum (int (next_id d))" for kvs
    by (simp add: row_get_def)
  from assms show ?thesis
    unfolding ids_generated_iff exec_Church_def
    by (auto simp add: new less_Suc_eq intro: exI [of _ "next_id d"])
qed

lemma ids_generated_run: "ids_generated d \<Longrightarrow> ids_generated (run valid qs d)"
  by (induction qs arbitrary: d) (simp_all add: ids_generated_exec)

lemma next_id_unused:
  assumes "ids_generated d"
  shows "filter (\<lambda>r. row_get r ''churchId'' = JNum (int (next_id d))) (church_rows d) = []"
  using assms unfolding ids_generated_iff by (auto simp add: filter_empty_conv)

lemma zip_columns:
  "zip church_columns (map (\<lambda>k. bound_value (field req k)) church_columns) =
     map (\<lambda>k. (k, bound_value (field req k))) church_columns"
  by (simp add: church_columns_def)

lemma values_columns:
  "map bound_value (snd (post_Church_stmt req)) =
     map (\<lambda>k. bound_value (field req k)) church_columns"
  by (simp add: church_columns_def post_Church_stmt_def Let_def)

lemma exec_insert:
  assumes "valid (church_rows d) (map (\<lambda>k. bound_value (field req k)) church_columns)"
  shows "exec_Church valid (post_Church_stmt req) d =
     (Calls None (ROk 1 (next_id d)),
      d\<lparr>church_rows := church_rows d @
           [(''churchId'', JNum (int (next_id d))) #
            map (\<lambda>k. (k, bound_value (field req k))) church_columns],
        next_id := next_id d + 1\<rparr>)"
proof -
  have "fst (post_Church_stmt req) =
      ''INSERT INTO Church (churchName, location, branch, province, city, region, '' @
      ''pastorId) VALUES (?, ?, ?, ?, ?, ?, ?)''"
    by (simp add: post_Church_stmt_def Let_def)
  moreover have "length (snd (post_Church_stmt req)) = 7"
    by (simp add: post_Church_stmt_def Let_def)
  ultimately show ?thesis
    using assms
    unfolding exec_Church_def by (simp only: values_columns zip_columns simp_thms if_True)
qed

lemma exec_select:
  "exec_Church valid (''SELECT * FROM Church WHERE churchId = ?'', [v]) d =
     (Calls None (RRows (filter (\<lambda>r. row_get r ''churchId'' = v) (church_rows d))), d)"
  by (simp add: exec_Church_def)

lemma post_Church_queries: "queries (post_Church req rep) = [post_Church_stmt req]"
  by (cases rep) (simp_all add: post_Church_def run_defs split: option.splits)

lemma get_Church_id_queries: "queries (get_Church_id req rep) = [get_Church_id_stmt req]"
  by (cases rep)
     (simp_all add: get_Church_id_def run_defs split: option.splits dbresult.splits)

lemma serves_post_Church:
  "serves valid post_Church req d oc d' \<longleftrightarrow>
     (oc, d') = (post_Church req (fst (exec_Church valid (post_Church_stmt req) d)),
                 snd (exec_Church valid (post_Church_stmt req) d))"
proof
  assume "serves valid post_Church req d oc d'"
  then show "(oc, d') = (post_Church req (fst (exec_Church valid (post_Church_stmt req) d)),
                 snd (exec_Church valid (post_Church_stmt req) d))"
    by (auto simp add: serves.simps post_Church_queries)
next
  assume a: "(oc, d') = (post_Church req (fst (exec_Church valid (post_Church_stmt req) d)),
                 snd (exec_Church valid (post_Church_stmt req) d))"
  have "serves valid post_Church req d
          (post_Church req (fst (exec_Church valid (post_Church_stmt req) d)))
          (snd (exec_Church valid (post_Church_stmt req) d))"
    by (rule serves.intros [of _ _ _ "post_Church_stmt req"])
       (simp_all add: post_Church_queries)
  with a show "serves valid post_Church req d oc d'" by simp
qed

lemma serves_get_Church_id:
  "serves valid get_Church_id req d oc d' \<longleftrightarrow>
     (oc, d') = (get_Church_id req (fst (exec_Church valid (get_Church_id_stmt req) d)),
                 snd (exec_Church valid (get_Church_id_stmt req) d))"
proof
  assume "serves valid get_Church_id req d oc d'"
  then show "(oc, d') =
      (get_Church_id req (fst (exec_Church valid (get_Church_id_stmt req) d)),
       snd (exec_Church valid (get_Church_id_stmt req) d))"
    by (auto simp add: serves.simps get_Church_id_queries)
next
  assume a: "(oc, d') =
      (get_Church_id req (fst (exec_Church valid (get_Church_id_stmt req) d)),
       snd (exec_Church valid (get_Church_id_stmt req) d))"
  have "serves valid get_Church_id req d
          (get_Church_id req (fst (exec_Church valid (get_Church_id_stmt req) d)))
          (snd (exec_Church valid (get_Church_id_stmt req) d))"
    by (rule serves.intros [of _ _ _ "get_Church_id_stmt req"])
       (simp_all add: get_Church_id_queries)
  with a show "serves valid get_Church_id req d oc d'" by simp
qed

text \<open>
  C9, as the code has it, for Church over the table modelled above. Take a table
  reached from one without rows by any statements, a valid payload (one whose seven
  values the table takes), and let the identifier the insert generates be below
  \<open>2 ^ 53\<close>, so that a JavaScript number holds it exactly. Then the two requests can be
  served, each handler getting the executor's answer to the statement it handed over,
  and however they are: creating the Church is answered 201 with that identifier as
  \<^verbatim>\<open>insertId\<close>; reading by a path parameter that parses to the identifier is then
  answered 200 with an array of exactly one row, which holds the generated \<^verbatim>\<open>churchId\<close>
  and, under each of the seven columns, the value the payload gave (\<^verbatim>\<open>null\<close> where it
  gave none).
\<close>

theorem Church_round_trip:
  assumes empty: "church_rows d0 = []"
    and d: "d = run valid qs d0"
    and ok: "valid (church_rows d) (map (\<lambda>k. bound_value (field req k)) church_columns)"
    and small: "next_id d < 2 ^ 53"
    and p: "params req2 ''churchId'' = Some s"
    and s: "parseInt (JStr s) = JNum (int (next_id d))"
  shows "(\<exists>oc1 d1 oc2 d2.
            serves valid post_Church req d oc1 d1 \<and> serves valid get_Church_id req2 d1 oc2 d2)
       \<and> (\<forall>oc1 d1 oc2 d2.
            serves valid post_Church req d oc1 d1 \<and> serves valid get_Church_id req2 d1 oc2 d2 \<longrightarrow>
            sent oc1 =
              Some (201, Json [(''message'', Str ''Church created successfully''),
                               (''result'', R (ROk 1 (next_id d)))])
            \<and> sent oc2 =
              Some (200, JsonOf (RRows
                [(''churchId'', JNum (int (next_id d))) #
                 map (\<lambda>k. (k, bound_value (field req k))) church_columns])))"
proof -
  let ?row = "(''churchId'', JNum (int (next_id d))) #
              map (\<lambda>k. (k, bound_value (field req k))) church_columns"
  let ?d1 = "d\<lparr>church_rows := church_rows d @ [?row], next_id := next_id d + 1\<rparr>"
  have gen: "ids_generated d"
    unfolding d by (rule ids_generated_run) (rule ids_generated_empty [OF empty])
  have create: "exec_Church valid (post_Church_stmt req) d = (Calls None (ROk 1 (next_id d)), ?d1)"
    using ok by (rule exec_insert)
  have stmt2: "get_Church_id_stmt req2 =
      (''SELECT * FROM Church WHERE churchId = ?'', [JNum (int (next_id d))])"
    using p s by (simp add: get_Church_id_stmt_def param_def)
  have new: "row_get ?row ''churchId'' = JNum (int (next_id d))"
    by (simp add: row_get_def)
  have found: "filter (\<lambda>r. row_get r ''churchId'' = JNum (int (next_id d))) (church_rows ?d1)
      = [?row]"
    using next_id_unused [OF gen] new by simp
  have read: "exec_Church valid (get_Church_id_stmt req2) ?d1 = (Calls None (RRows [?row]), ?d1)"
    by (simp only: stmt2 exec_select found)
  have r1: "sent (post_Church req (Calls None (ROk 1 (next_id d)))) =
           Some (201, Json [(''message'', Str ''Church created successfully''),
                            (''result'', R (ROk 1 (next_id d)))])"
    by (simp add: post_Church_def run_defs)
  have r2: "sent (get_Church_id req2 (Calls None (RRows [?row]))) =
           Some (200, JsonOf (RRows [?row]))"
    by (simp add: get_Church_id_def run_defs)
  have s1: "serves valid post_Church req d oc1 d1 \<longleftrightarrow>
      oc1 = post_Church req (Calls None (ROk 1 (next_id d))) \<and> d1 = ?d1" for oc1 d1
    by (simp only: serves_post_Church create fst_conv snd_conv prod.inject)
  have s2: "serves valid get_Church_id req2 ?d1 oc2 d2 \<longleftrightarrow>
      oc2 = get_Church_id req2 (Calls None (RRows [?row])) \<and> d2 = ?d1" for oc2 d2
    by (simp only: serves_get_Church_id read fst_conv snd_conv prod.inject)
  show ?thesis
  proof (intro conjI allI impI)
    show "\<exists>oc1 d1 oc2 d2.
            serves valid post_Church req d oc1 d1 \<and> serves valid get_Church_id req2 d1 oc2 d2"
      using s1 s2 by blast
  next
    fix oc1 d1 oc2 d2
    assume a: "serves valid post_Church req d oc1 d1 \<and> serves valid get_Church_id req2 d1 oc2 d2"
    then have "oc1 = post_Church req (Calls None (ROk 1 (next_id d)))" and "d1 = ?d1"
      using s1 by blast+
    with a have "oc2 = get_Church_id req2 (Calls None (RRows [?row]))"
      using s2 by blast
    with \<open>oc1 = _\<close> r1 r2
    show "sent oc1 =
              Some (201, Json [(''message'', Str ''Church created successfully''),
                               (''result'', R (ROk 1 (next_id d)))])"
      and "sent oc2 =
              Some (200, JsonOf (RRows
                [(''churchId'', JNum (int (next_id d))) #
                 map (\<lambda>k. (k, bound_value (field req k))) church_columns]))"
      by simp_all
  qed
qed

lemma run_to_db_grace:
  "run named_and_located [post_Church_stmt req_new_church] db_empty = db_grace"
  by (simp add: exec_Church_def post_Church_stmt_def req_new_church_def db_empty_def
        db_grace_def named_and_located_def bound_value_def church_columns_def field_def Let_def)

text \<open>
  C9 at a table that wants a name and a location and already holds one Church: a second
  Church, created from a payload with just these two fields, is read back as
  \<^verbatim>\<open>/api/Church/2\<close>.
\<close>

theorem Church_round_trip_witness:
  "church_rows db_empty = []
   \<and> db_grace = run named_and_located [post_Church_stmt req_new_church] db_empty
   \<and> named_and_located (church_rows db_grace)
        (map (\<lambda>k. bound_value (field req_grace k)) church_columns)
   \<and> next_id db_grace < 2 ^ 53
   \<and> params (req_churchId ''2'') ''churchId'' = Some ''2''
   \<and> parseInt (JStr ''2'') = JNum (int (next_id db_grace))
   \<and> (\<exists>oc1 d1 oc2 d2.
         serves named_and_located post_Church req_grace db_grace oc1 d1
         \<and> serves named_and_located get_Church_id (req_churchId ''2'') d1 oc2 d2
         \<and> sent oc2 =
             Some (200, JsonOf (RRows
               [[(''churchId'', JNum 2), (''churchName'', JStr ''Grace''),
                 (''location'', JStr ''Durban''), (''branch'', JNull),
                 (''province'', JNull), (''city'', JNull),
                 (''region'', JNull), (''pastorId'', JNull)]])))"
proof -
  have e: "church_rows db_empty = []"
    by (simp add: db_empty_def)
  have d: "db_grace = run named_and_located [post_Church_stmt req_new_church] db_empty"
    by (simp only: run_to_db_grace)
  have ok: "named_and_located (church_rows db_grace)
        (map (\<lambda>k. bound_value (field req_grace k)) church_columns)"
    by (simp add: named_and_located_def church_columns_def req_grace_def field_def
          bound_value_def)
  have n: "next_id db_grace = 2"
    by (simp add: db_grace_def)
  have small: "next_id db_grace < 2 ^ 53"
    by (simp add: n)
  have p: "params (req_churchId ''2'') ''churchId'' = Some ''2''"
    by (simp add: req_churchId_def)
  have s: "parseInt (JStr ''2'') = JNum (int (next_id db_grace))"
    by (simp add: n parse_defs)
  have row: "(''churchId'', JNum (int (next_id db_grace))) #
             map (\<lambda>k. (k, bound_value (field req_grace k))) church_columns =
             [(''churchId'', JNum 2), (''churchName'', JStr ''Grace''),
              (''location'', JStr ''Durban''), (''branch'', JNull),
              (''province'', JNull), (''city'', JNull),
              (''region'', JNull), (''pastorId'', JNull)]"
    by (simp add: n church_columns_def req_grace_def field_def bound_value_def)
  note th = Church_round_trip [of db_empty db_grace named_and_located
      "[post_Church_stmt req_new_church]" req_grace "req_churchId ''2''" "''2''",
      OF e d ok small p s]
  from th obtain oc1 d1 oc2 d2 where
    sv: "serves named_and_located post_Church req_grace db_grace oc1 d1
         \<and> serves named_and_located get_Church_id (req_churchId ''2'') d1 oc2 d2"
    by blast
  with th have "sent oc2 =
      Some (200, JsonOf (RRows
        [(''churchId'', JNum (int (next_id db_grace))) #
         map (\<lambda>k. (k, bound_value (field req_grace k))) church_columns]))"
    by blast
  then have "sent oc2 =
      Some (200, JsonOf (RRows
               [[(''churchId'', JNum 2), (''churchName'', JStr ''Grace''),
                 (''location'', JStr ''Durban''), (''branch'', JNull),
                 (''province'', JNull), (''city'', JNull),
                 (''region'', JNull), (''pastorId'', JNull)]]))"
    by (simp only: row)
  with sv have "\<exists>oc1 d1 oc2 d2.
         serves named_and_located post_Church req_grace db_grace oc1 d1
         \<and> serves named_and_located get_Church_id (req_churchId ''2'') d1 oc2 d2
         \<and> sent oc2 =
             Some (200, JsonOf (RRows
               [[(''churchId'', JNum 2), (''churchName'', JStr ''Grace''),
                 (''location'', JStr ''Durban''), (''branch'', JNull),
                 (''province'', JNull), (''city'', JNull),
                 (''region'', JNull), (''pastorId'', JNull)]]))"
    by blast
  with e d ok small p s show ?thesis by blast
qed

text \<open>
  C9 fails as stated. What the read returns after the create is not a Record equal to
  the payload: it is an array, and its one row has the column \<^verbatim>\<open>churchId\<close> before the
  seven fields of the payload. And for a Location there is nothing that reads by
  identifier: the routing table has no such handler.
\<close>

theorem round_trip_is_not_the_payload:
  "serves named_and_located post_Church req_new_church db_empty
     (post_Church req_new_church (Calls None (ROk 1 1))) db_grace
   \<and> serves named_and_located get_Church_id (req_churchId ''1'') db_grace
       (get_Church_id (req_churchId ''1'') (Calls None (RRows (church_rows db_grace)))) db_grace
   \<and> sent (get_Church_id (req_churchId ''1'') (Calls None (RRows (church_rows db_grace)))) =
       Some (200, JsonOf (RRows
         [[(''churchId'', JNum 1), (''churchName'', JStr ''Grace''),
           (''location'', JStr ''Durban''), (''branch'', JStr ''Central''),
           (''province'', JStr ''KZN''), (''city'', JStr ''Durban''),
           (''region'', JStr ''Coast''), (''pastorId'', JNum 4)]]))
   \<and> record_of req_new_church =
       [(''churchName'', JStr ''Grace''),
        (''location'', JStr ''Durban''), (''branch'', JStr ''Central''),
        (''province'', JStr ''KZN''), (''city'', JStr ''Durban''),
        (''region'', JStr ''Coast''), (''pastorId'', JNum 4)]
   \<and> route Location GetByID = None"
proof (intro conjI)
  have x: "exec_Church named_and_located (post_Church_stmt req_new_church) db_empty =
      (Calls None (ROk 1 1), db_grace)"
    by (simp add: exec_Church_def post_Church_stmt_def req_new_church_def db_empty_def
          db_grace_def named_and_located_def bound_value_def church_columns_def field_def
          Let_def)
  show "serves named_and_located post_Church req_new_church db_empty
     (post_Church req_new_church (Calls None (ROk 1 1))) db_grace"
    by (simp only: serves_post_Church x fst_conv snd_conv)
  have y: "exec_Church named_and_located (get_Church_id_stmt (req_churchId ''1'')) db_grace =
      (Calls None (RRows (church_rows db_grace)), db_grace)"
    by (simp add: exec_Church_def get_Church_id_stmt_def req_churchId_def db_grace_def
          param_def row_get_def parse_defs)
  show "serves named_and_located get_Church_id (req_churchId ''1'') db_grace
       (get_Church_id (req_churchId ''1'') (Calls None (RRows (church_rows db_grace)))) db_grace"
    by (simp only: serves_get_Church_id y fst_conv snd_conv)
  show "sent (get_Church_id (req_churchId ''1'') (Calls None (RRows (church_rows db_grace)))) =
       Some (200, JsonOf (RRows
         [[(''churchId'', JNum 1), (''churchName'', JStr ''Grace''),
           (''location'', JStr ''Durban''), (''branch'', JStr ''Central''),
           (''province'', JStr ''KZN''), (''city'', JStr ''Durban''),
           (''region'', JStr ''Coast''), (''pastorId'', JNum 4)]]))"
    by (simp add: get_Church_id_def db_grace_def run_defs)
  show "record_of req_new_church =
       [(''churchName'', JStr ''Grace''),
        (''location'', JStr ''Durban''), (''branch'', JStr ''Central''),
        (''province'', JStr ''KZN''), (''city'', JStr ''Durban''),
        (''region'', JStr ''Coast''), (''pastorId'', JNum 4)]"
    by (simp add: record_of_def church_columns_def req_new_church_def field_def)
  show "route Location GetByID = None"
    by simp
qed

subsection \<open>The update handlers of Person and User\<close>

text \<open>
  C10. The handlers that update a Person and a User bind the response object as
  \<^verbatim>\<open>res\<close>, and their callback, when the query has succeeded, reads \<^verbatim>\<open>response\<close>, which
  is bound nowhere: a ReferenceError is raised and no response is written. The other two
  paths do not reply with success either: on a database error the callback returns
  without a response, and if \<^verbatim>\<open>pool.query\<close> itself throws the \<^verbatim>\<open>catch\<close> block answers
  500.
\<close>

theorem put_Person_put_User_never_succeed:
  "put_Person request (Calls None result) =
     \<lparr>queries = [(put_Person_sql request, [])], sent = None,
      thrown = Some (ReferenceError ''response'')\<rparr>
   \<and> put_Person request (Calls (Some e) result) =
     \<lparr>queries = [(put_Person_sql request, [])], sent = None, thrown = None\<rparr>
   \<and> put_Person request (Throws m) =
     \<lparr>queries = [(put_Person_sql request, [])],
      sent = Some (500, Json [(''message'', Str m)]), thrown = None\<rparr>
   \<and> put_User request (Calls None result) =
     \<lparr>queries = [(put_User_sql request, [])], sent = None,
      thrown = Some (ReferenceError ''response'')\<rparr>
   \<and> put_User request (Calls (Some e) result) =
     \<lparr>queries = [(put_User_sql request, [])], sent = None, thrown = None\<rparr>
   \<and> put_User request (Throws m) =
     \<lparr>queries = [(put_User_sql request, [])],
      sent = Some (500, Json [(''message'', Str m)]), thrown = None\<rparr>"
  by (simp add: put_Person_def put_User_def run_defs)

end
